theory Spec2Isabelle
  imports Complex_Main "HOL-Library.Word"
begin

section \<open>Solidity basics: addresses, checked arithmetic, reverts\<close>

text \<open>
  The five contracts (TaskManager, BountyPool, VerificationContract, ReputationContract,
  AntiFraud) are compiled with Solidity 0.8.20: every \<open>uint256\<close> and \<open>int256\<close> operation is
  checked and reverts with a panic on overflow or underflow. A \<open>uint256\<close> is modelled as a
  \<open>nat\<close>, an \<open>int256\<close> as an \<open>int\<close>, and each arithmetic operation of the source is one
  of the checked operations below. A revert is the \<open>Inl\<close> branch of a result; it carries
  no state, because the EVM discards every write of a reverted call.
  An \<open>address\<close> is a number, \<open>address(0)\<close> is \<open>0\<close>.
\<close>

type_synonym address = nat

datatype error =
    Panic
  | RequireFailed string
  | OwnableUnauthorizedAccount address
  | CallToNonContract address
  | InsufficientFunds address nat
  | TM_InsufficientBounty nat nat
  | TaskNotActive nat
  | WorkerAlreadyClaimed address nat
  | MaxActiveTasksReached address
  | OutsideLocationRadius int int int int
  | DeadlineExpired nat nat
  | UnauthorizedAccess address
  | InvalidTaskId nat
  | TaskNotClaimed address nat
  | BP_InsufficientBounty nat nat nat
  | UnauthorizedCaller address
  | TransferFailed address nat
  | InvalidAddress address
  | NoFeesToWithdraw
  | ReputationAlreadyInitialized address
  | InsufficientStake nat nat
  | AlreadyVoted address nat
  | SubmissionNotFound nat
  | AlreadyVerified nat
  | ConsensusNotReached nat
  | MaxVerifiersReached nat
  | RewardAlreadyDistributed nat
  | RewardDistributionTooEarly nat nat
  | WorkerCannotVerifyOwnSubmission address
  | RateLimitExceededError address nat
  | DuplicateImageDetected string address
  | InvalidMetadata string
  | WorkerBlacklistedError address
  | NoStakeToForfeit address

definition MAX_UINT256 :: nat where
  "MAX_UINT256 = 2 ^ 256 - 1"

definition MAX_INT256 :: int where
  "MAX_INT256 = 2 ^ 255 - 1"

definition MIN_INT256 :: int where
  "MIN_INT256 = - (2 ^ 255)"

definition bindE :: "error + 'a \<Rightarrow> ('a \<Rightarrow> error + 'b) \<Rightarrow> error + 'b" where
  "bindE r f = (case r of Inl e \<Rightarrow> Inl e | Inr v \<Rightarrow> f v)"

definition checked_add :: "nat \<Rightarrow> nat \<Rightarrow> error + nat" where
  "checked_add a b = (if a + b \<le> MAX_UINT256 then Inr (a + b) else Inl Panic)"

definition checked_sub :: "nat \<Rightarrow> nat \<Rightarrow> error + nat" where
  "checked_sub a b = (if b \<le> a then Inr (a - b) else Inl Panic)"

definition checked_mul :: "nat \<Rightarrow> nat \<Rightarrow> error + nat" where
  "checked_mul a b = (if a * b \<le> MAX_UINT256 then Inr (a * b) else Inl Panic)"

definition in_int256 :: "int \<Rightarrow> bool" where
  "in_int256 x = (MIN_INT256 \<le> x \<and> x \<le> MAX_INT256)"

definition checked_iadd :: "int \<Rightarrow> int \<Rightarrow> error + int" where
  "checked_iadd a b = (if in_int256 (a + b) then Inr (a + b) else Inl Panic)"

definition checked_isub :: "int \<Rightarrow> int \<Rightarrow> error + int" where
  "checked_isub a b = (if in_int256 (a - b) then Inr (a - b) else Inl Panic)"

definition checked_imul :: "int \<Rightarrow> int \<Rightarrow> error + int" where
  "checked_imul a b = (if in_int256 (a * b) then Inr (a * b) else Inl Panic)"

text \<open>A transaction that reverts leaves the state it started from.\<close>

definition commit :: "'s \<Rightarrow> error + 's \<Rightarrow> 's" where
  "commit s r = (case r of Inl e \<Rightarrow> s | Inr s' \<Rightarrow> s')"

section \<open>Data model\<close>

datatype TaskCategory =
  PHOTO_VERIFICATION | LOCATION_CHECK | SURVEY | PRICE_MONITORING | BUSINESS_HOURS

datatype TaskStatus = ACTIVE | IN_PROGRESS | COMPLETED | EXPIRED | CANCELLED

datatype VerificationStatus = PENDING | VERIFIED | REJECTED | DISPUTED

record Location =
  latitude :: int
  longitude :: int
  radius :: nat

record TaskRequirements =
  photoCount :: "8 word"
  requiresLocation :: bool
  minReputation :: nat
  requiredBadge :: TaskCategory

record Task =
  task_id :: nat
  creator :: address
  description :: string
  category :: TaskCategory
  bountyAmount :: nat
  maxWorkers :: nat
  location :: Location
  deadline :: nat
  task_status :: TaskStatus
  requirements :: TaskRequirements
  submissionCount :: nat
  verifiedCount :: nat
  createdAt :: nat

record TaskClaim =
  claim_worker :: address
  claimedAt :: nat
  completed :: bool

record Submission =
  sub_id :: nat
  sub_taskId :: nat
  sub_worker :: address
  ipfsHash :: string
  sub_timestamp :: nat
  sub_location :: Location
  sub_status :: VerificationStatus
  approvalCount :: nat
  rejectionCount :: nat
  totalVotes :: nat
  sub_bountyAmount :: nat
  rewardDistributed :: bool

record Vote =
  hasVoted :: bool
  approved :: bool
  vote_timestamp :: nat
  stake :: nat

record CategoryStats =
  successCount :: nat
  totalCount :: nat
  hasBadge :: bool

record ReputationData =
  score :: nat
  tasksCompleted :: nat
  tasksRejected :: nat
  verificationsPerformed :: nat
  accurateVerifications :: nat
  categoryStats :: "TaskCategory \<Rightarrow> CategoryStats"

record SubmissionRecord =
  rec_timestamp :: nat
  imageHash :: string
  metadataHash :: nat

record DailySubmissionCount =
  date :: nat
  count :: nat

text \<open>Storage of each contract. A Solidity mapping is a total function whose default is
  the zero value of the value type.\<close>

record TaskManager =
  taskIdCounter :: nat
  tasks :: "nat \<Rightarrow> Task"
  workerActiveTasks :: "address \<Rightarrow> nat list"
  taskClaims :: "nat \<Rightarrow> address \<Rightarrow> TaskClaim"
  taskWorkers :: "nat \<Rightarrow> address list"
  antiFraudAddress :: address
  tm_owner :: address

record BountyPool =
  taskBounties :: "nat \<Rightarrow> nat"
  accumulatedFees :: nat
  bp_taskManagerAddress :: address
  bp_verificationContractAddress :: address
  bp_owner :: address

record VerificationContract =
  submissionIdCounter :: nat
  submissions :: "nat \<Rightarrow> Submission"
  verificationVotes :: "nat \<Rightarrow> address \<Rightarrow> Vote"
  submissionVerifiers :: "nat \<Rightarrow> address list"
  consensusReachedAt :: "nat \<Rightarrow> nat"
  bountyPoolAddress :: address
  reputationContractAddress :: address
  vc_taskManagerAddress :: address
  vc_antiFraudAddress :: address
  vc_owner :: address

record ReputationContract =
  reputations :: "address \<Rightarrow> ReputationData"
  rc_verificationContractAddress :: address
  rc_taskManagerAddress :: address
  rc_owner :: address

record AntiFraud =
  workerDailySubmissions :: "address \<Rightarrow> DailySubmissionCount"
  workerSubmissions :: "address \<Rightarrow> SubmissionRecord list"
  usedImageHashes :: "string \<Rightarrow> bool"
  imageHashToWorker :: "string \<Rightarrow> address"
  workerStakes :: "address \<Rightarrow> nat"
  blacklistedWorkers :: "address \<Rightarrow> bool"
  af_verificationContractAddress :: address
  af_taskManagerAddress :: address
  af_owner :: address

text \<open>
  The deployed system: the five contracts at their addresses, the native-token balance of
  every account, and two facts about the environment that the contracts cannot see into:
  which accounts refuse a plain value transfer (a contract without a payable
  \<open>receive\<close>, or one that reverts in it), and the value of
  \<open>keccak256(abi.encodePacked(taskId, sender, ipfsHash, timestamp, lat, lon))\<close>, which
  is a parameter of the model.
\<close>

record world =
  balances :: "address \<Rightarrow> nat"
  refusesEther :: "address \<Rightarrow> bool"
  keccakMetadata :: "nat \<Rightarrow> address \<Rightarrow> string \<Rightarrow> nat \<Rightarrow> int \<Rightarrow> int \<Rightarrow> nat"
  tmAddr :: address
  bpAddr :: address
  vcAddr :: address
  rcAddr :: address
  afAddr :: address
  tm :: TaskManager
  bp :: BountyPool
  vc :: VerificationContract
  rc :: ReputationContract
  af :: AntiFraud

text \<open>\<open>payable(to).call{value: v}("")\<close> issued by contract \<open>from\<close>: the flag is false
  when the contract does not hold \<open>v\<close> or the recipient refuses.\<close>

definition send_value :: "world \<Rightarrow> address \<Rightarrow> address \<Rightarrow> nat \<Rightarrow> bool \<times> world" where
  "send_value w from to v =
     (if balances w from < v \<or> refusesEther w to then (False, w)
      else (True, w\<lparr>balances := ((balances w)(from := balances w from - v))
                                   (to := ((balances w)(from := balances w from - v)) to + v)\<rparr>))"

text \<open>The value attached to a call of a payable function moves from the caller to the
  contract before the body runs; a caller who does not hold it cannot send the call.\<close>

definition attach_value :: "world \<Rightarrow> address \<Rightarrow> address \<Rightarrow> nat \<Rightarrow> error + world" where
  "attach_value w sender target v =
     (if balances w sender < v then Inl (InsufficientFunds sender v)
      else Inr (w\<lparr>balances := ((balances w)(sender := balances w sender - v))
                                (target := ((balances w)(sender := balances w sender - v)) target + v)\<rparr>))"

section \<open>ReputationContract\<close>

definition INITIAL_REPUTATION :: nat where "INITIAL_REPUTATION = 50"
definition REPUTATION_INCREASE :: nat where "REPUTATION_INCREASE = 5"
definition REPUTATION_DECREASE :: nat where "REPUTATION_DECREASE = 5"
definition BADGE_TASK_THRESHOLD :: nat where "BADGE_TASK_THRESHOLD = 10"
definition BADGE_SUCCESS_RATE_THRESHOLD :: nat where "BADGE_SUCCESS_RATE_THRESHOLD = 90"
definition MAX_REPUTATION :: nat where "MAX_REPUTATION = 100"
definition MIN_REPUTATION :: nat where "MIN_REPUTATION = 0"

definition rc_setVerificationContract ::
  "ReputationContract \<Rightarrow> address \<Rightarrow> address \<Rightarrow> error + ReputationContract" where
  "rc_setVerificationContract r sender x =
     (if sender \<noteq> rc_owner r then Inl (OwnableUnauthorizedAccount sender)
      else if x = 0 then Inl (InvalidAddress x)
      else Inr (r\<lparr>rc_verificationContractAddress := x\<rparr>))"

definition rc_setTaskManager ::
  "ReputationContract \<Rightarrow> address \<Rightarrow> address \<Rightarrow> error + ReputationContract" where
  "rc_setTaskManager r sender x =
     (if sender \<noteq> rc_owner r then Inl (OwnableUnauthorizedAccount sender)
      else if x = 0 then Inl (InvalidAddress x)
      else Inr (r\<lparr>rc_taskManagerAddress := x\<rparr>))"

definition initializeReputation :: "ReputationContract \<Rightarrow> address \<Rightarrow> error + ReputationContract" where
  "initializeReputation r user =
     (let rep = reputations r user in
      if score rep \<noteq> 0 then Inl (ReputationAlreadyInitialized user)
      else Inr (r\<lparr>reputations := (reputations r)(user := rep\<lparr>score := INITIAL_REPUTATION\<rparr>)\<rparr>))"

definition updateWorkerReputation ::
  "ReputationContract \<Rightarrow> address \<Rightarrow> address \<Rightarrow> bool \<Rightarrow> error + ReputationContract" where
  "updateWorkerReputation r sender worker successful =
     (if sender \<noteq> rc_verificationContractAddress r then Inl (UnauthorizedCaller sender)
      else
        let rep0 = reputations r worker;
            rep = (if score rep0 = 0 \<and> tasksCompleted rep0 = 0 \<and> tasksRejected rep0 = 0
                   then rep0\<lparr>score := INITIAL_REPUTATION\<rparr> else rep0)
        in if successful then
             bindE (checked_add (score rep) REPUTATION_INCREASE) (\<lambda>s.
             bindE (checked_add (tasksCompleted rep) 1) (\<lambda>c.
               Inr (r\<lparr>reputations := (reputations r)(worker :=
                      rep\<lparr>score := (if s \<le> MAX_REPUTATION then s else MAX_REPUTATION),
                          tasksCompleted := c\<rparr>)\<rparr>)))
           else
             bindE (checked_add (tasksRejected rep) 1) (\<lambda>c.
               Inr (r\<lparr>reputations := (reputations r)(worker :=
                      rep\<lparr>score := (if score rep \<ge> REPUTATION_DECREASE
                                     then score rep - REPUTATION_DECREASE else MIN_REPUTATION),
                          tasksRejected := c\<rparr>)\<rparr>)))"

definition shouldAwardBadge :: "CategoryStats \<Rightarrow> error + bool" where
  "shouldAwardBadge stats =
     (if totalCount stats < BADGE_TASK_THRESHOLD then Inr False
      else bindE (checked_mul (successCount stats) 100) (\<lambda>m.
             Inr (m div totalCount stats \<ge> BADGE_SUCCESS_RATE_THRESHOLD)))"

definition updateWorkerReputationWithCategory ::
  "ReputationContract \<Rightarrow> address \<Rightarrow> address \<Rightarrow> TaskCategory \<Rightarrow> bool \<Rightarrow> error + ReputationContract" where
  "updateWorkerReputationWithCategory r sender worker cat successful =
     (if sender \<noteq> rc_verificationContractAddress r \<and> sender \<noteq> rc_taskManagerAddress r
      then Inl (UnauthorizedCaller sender)
      else
        let rep0 = reputations r worker;
            rep = (if score rep0 = 0 \<and> tasksCompleted rep0 = 0 \<and> tasksRejected rep0 = 0
                   then rep0\<lparr>score := INITIAL_REPUTATION\<rparr> else rep0)
        in bindE (if successful then
                    bindE (checked_add (score rep) REPUTATION_INCREASE) (\<lambda>s.
                    bindE (checked_add (tasksCompleted rep) 1) (\<lambda>c.
                      Inr (rep\<lparr>score := (if s \<le> MAX_REPUTATION then s else MAX_REPUTATION),
                               tasksCompleted := c\<rparr>)))
                  else
                    bindE (checked_add (tasksRejected rep) 1) (\<lambda>c.
                      Inr (rep\<lparr>score := (if score rep \<ge> REPUTATION_DECREASE
                                          then score rep - REPUTATION_DECREASE else MIN_REPUTATION),
                               tasksRejected := c\<rparr>))) (\<lambda>rep1.
           bindE (checked_add (totalCount (categoryStats rep1 cat)) 1) (\<lambda>tc.
           bindE (if successful then checked_add (successCount (categoryStats rep1 cat)) 1
                  else Inr (successCount (categoryStats rep1 cat))) (\<lambda>sc.
             let cs = (categoryStats rep1 cat)\<lparr>totalCount := tc, successCount := sc\<rparr> in
             bindE (if \<not> hasBadge cs then shouldAwardBadge cs else Inr False) (\<lambda>award.
               Inr (r\<lparr>reputations := (reputations r)(worker :=
                      rep1\<lparr>categoryStats := (categoryStats rep1)
                              (cat := (if award then cs\<lparr>hasBadge := True\<rparr> else cs))\<rparr>)\<rparr>))))))"

definition updateVerifierReputation ::
  "ReputationContract \<Rightarrow> address \<Rightarrow> address \<Rightarrow> bool \<Rightarrow> error + ReputationContract" where
  "updateVerifierReputation r sender verifier accurateVote =
     (if sender \<noteq> rc_verificationContractAddress r then Inl (UnauthorizedCaller sender)
      else
        let rep0 = reputations r verifier;
            rep = (if score rep0 = 0 \<and> verificationsPerformed rep0 = 0
                   then rep0\<lparr>score := INITIAL_REPUTATION\<rparr> else rep0)
        in bindE (checked_add (verificationsPerformed rep) 1) (\<lambda>vp.
           if accurateVote then
             bindE (checked_add (score rep) REPUTATION_INCREASE) (\<lambda>s.
             bindE (checked_add (accurateVerifications rep) 1) (\<lambda>av.
               Inr (r\<lparr>reputations := (reputations r)(verifier :=
                      rep\<lparr>verificationsPerformed := vp,
                          score := (if s \<le> MAX_REPUTATION then s else MAX_REPUTATION),
                          accurateVerifications := av\<rparr>)\<rparr>)))
           else
             Inr (r\<lparr>reputations := (reputations r)(verifier :=
                    rep\<lparr>verificationsPerformed := vp,
                        score := (if score rep \<ge> REPUTATION_DECREASE
                                   then score rep - REPUTATION_DECREASE else MIN_REPUTATION)\<rparr>)\<rparr>)))"

definition getReputationScore :: "ReputationContract \<Rightarrow> address \<Rightarrow> nat" where
  "getReputationScore r user =
     (let rep = reputations r user in
      if score rep = 0 \<and> tasksCompleted rep = 0 \<and> tasksRejected rep = 0
         \<and> verificationsPerformed rep = 0
      then INITIAL_REPUTATION else score rep)"

definition getReputationData :: "ReputationContract \<Rightarrow> address \<Rightarrow> nat \<times> nat \<times> nat \<times> nat \<times> nat" where
  "getReputationData r user =
     (let rep = reputations r user in
      ((if score rep = 0 then INITIAL_REPUTATION else score rep),
       tasksCompleted rep, tasksRejected rep,
       verificationsPerformed rep, accurateVerifications rep))"

text \<open>The external, state-changing calls of the contract, for talking about any sequence
  of them. A reverted call changes nothing.\<close>

datatype rep_op =
    InitializeReputation address
  | UpdateWorkerReputation address bool
  | UpdateWorkerReputationWithCategory address TaskCategory bool
  | UpdateVerifierReputation address bool

fun rep_call :: "ReputationContract \<Rightarrow> address \<times> rep_op \<Rightarrow> error + ReputationContract" where
  "rep_call r (sender, InitializeReputation u) = initializeReputation r u"
| "rep_call r (sender, UpdateWorkerReputation u b) = updateWorkerReputation r sender u b"
| "rep_call r (sender, UpdateWorkerReputationWithCategory u c b) =
     updateWorkerReputationWithCategory r sender u c b"
| "rep_call r (sender, UpdateVerifierReputation u b) = updateVerifierReputation r sender u b"

fun rep_run :: "ReputationContract \<Rightarrow> (address \<times> rep_op) list \<Rightarrow> ReputationContract" where
  "rep_run r [] = r"
| "rep_run r (c # cs) = rep_run (commit r (rep_call r c)) cs"

section \<open>BountyPool\<close>

definition PLATFORM_FEE_PERCENTAGE :: nat where "PLATFORM_FEE_PERCENTAGE = 250"
definition EXPIRED_TASK_FEE_PERCENTAGE :: nat where "EXPIRED_TASK_FEE_PERCENTAGE = 500"
definition BASIS_POINTS :: nat where "BASIS_POINTS = 10000"

definition bp_setTaskManager :: "BountyPool \<Rightarrow> address \<Rightarrow> address \<Rightarrow> error + BountyPool" where
  "bp_setTaskManager p sender x =
     (if sender \<noteq> bp_owner p then Inl (OwnableUnauthorizedAccount sender)
      else if x = 0 then Inl (InvalidAddress x)
      else Inr (p\<lparr>bp_taskManagerAddress := x\<rparr>))"

definition bp_setVerificationContract ::
  "BountyPool \<Rightarrow> address \<Rightarrow> address \<Rightarrow> error + BountyPool" where
  "bp_setVerificationContract p sender x =
     (if sender \<noteq> bp_owner p then Inl (OwnableUnauthorizedAccount sender)
      else if x = 0 then Inl (InvalidAddress x)
      else Inr (p\<lparr>bp_verificationContractAddress := x\<rparr>))"

definition depositBounty :: "world \<Rightarrow> address \<Rightarrow> nat \<Rightarrow> nat \<Rightarrow> error + world" where
  "depositBounty w sender msg_value taskId =
     bindE (attach_value w sender (bpAddr w) msg_value) (\<lambda>w1.
       if sender \<noteq> bp_taskManagerAddress (bp w1) then Inl (UnauthorizedCaller sender)
       else bindE (checked_add (taskBounties (bp w1) taskId) msg_value) (\<lambda>b.
              Inr (w1\<lparr>bp := (bp w1)\<lparr>taskBounties := (taskBounties (bp w1))(taskId := b)\<rparr>\<rparr>)))"

definition distributeReward :: "world \<Rightarrow> address \<Rightarrow> nat \<Rightarrow> address \<Rightarrow> nat \<Rightarrow> error + world" where
  "distributeReward w sender taskId worker amount =
     (if sender \<noteq> bp_verificationContractAddress (bp w) then Inl (UnauthorizedCaller sender)
      else if taskBounties (bp w) taskId < amount
      then Inl (BP_InsufficientBounty taskId amount (taskBounties (bp w) taskId))
      else
        bindE (checked_mul amount PLATFORM_FEE_PERCENTAGE) (\<lambda>m.
        let platformFee = m div BASIS_POINTS in
        bindE (checked_sub amount platformFee) (\<lambda>workerReward.
        bindE (checked_sub (taskBounties (bp w) taskId) amount) (\<lambda>newBalance.
        bindE (checked_add (accumulatedFees (bp w)) platformFee) (\<lambda>fees.
          case send_value
                 (w\<lparr>bp := (bp w)\<lparr>taskBounties := (taskBounties (bp w))(taskId := newBalance),
                                  accumulatedFees := fees\<rparr>\<rparr>)
                 (bpAddr w) worker workerReward of
            (success, w') \<Rightarrow>
              if \<not> success then Inl (TransferFailed worker workerReward) else Inr w')))))"

definition refundBounty :: "world \<Rightarrow> address \<Rightarrow> nat \<Rightarrow> address \<Rightarrow> nat \<Rightarrow> error + world" where
  "refundBounty w sender taskId creator_addr amount =
     (if sender \<noteq> bp_taskManagerAddress (bp w) then Inl (UnauthorizedCaller sender)
      else if taskBounties (bp w) taskId < amount
      then Inl (BP_InsufficientBounty taskId amount (taskBounties (bp w) taskId))
      else
        bindE (checked_mul amount EXPIRED_TASK_FEE_PERCENTAGE) (\<lambda>m.
        let platformFee = m div BASIS_POINTS in
        bindE (checked_sub amount platformFee) (\<lambda>refundAmount.
        bindE (checked_sub (taskBounties (bp w) taskId) amount) (\<lambda>newBalance.
        bindE (checked_add (accumulatedFees (bp w)) platformFee) (\<lambda>fees.
          case send_value
                 (w\<lparr>bp := (bp w)\<lparr>taskBounties := (taskBounties (bp w))(taskId := newBalance),
                                  accumulatedFees := fees\<rparr>\<rparr>)
                 (bpAddr w) creator_addr refundAmount of
            (success, w') \<Rightarrow>
              if \<not> success then Inl (TransferFailed creator_addr refundAmount) else Inr w')))))"

definition withdrawPlatformFees :: "world \<Rightarrow> address \<Rightarrow> error + world" where
  "withdrawPlatformFees w sender =
     (if sender \<noteq> bp_owner (bp w) then Inl (OwnableUnauthorizedAccount sender)
      else
        let amount = accumulatedFees (bp w) in
        if amount = 0 then Inl NoFeesToWithdraw
        else
          case send_value (w\<lparr>bp := (bp w)\<lparr>accumulatedFees := 0\<rparr>\<rparr>)
                 (bpAddr w) (bp_owner (bp w)) amount of
            (success, w') \<Rightarrow>
              if \<not> success then Inl (TransferFailed (bp_owner (bp w)) amount) else Inr w')"

section \<open>AntiFraud\<close>

definition MAX_SUBMISSIONS_PER_DAY :: nat where "MAX_SUBMISSIONS_PER_DAY = 20"
definition ONE_DAY :: nat where "ONE_DAY = 86400"

definition getCurrentDay :: "nat \<Rightarrow> nat" where
  "getCurrentDay now = (now div ONE_DAY) * ONE_DAY"

definition checkRateLimit :: "AntiFraud \<Rightarrow> nat \<Rightarrow> address \<Rightarrow> error + AntiFraud" where
  "checkRateLimit a now worker =
     (let today = getCurrentDay now;
          dc0 = workerDailySubmissions a worker;
          dc = (if date dc0 \<noteq> today then dc0\<lparr>date := today, count := 0\<rparr> else dc0)
      in if count dc \<ge> MAX_SUBMISSIONS_PER_DAY
         then Inl (RateLimitExceededError worker (count dc))
         else bindE (checked_add (count dc) 1) (\<lambda>c.
                Inr (a\<lparr>workerDailySubmissions :=
                         (workerDailySubmissions a)(worker := dc\<lparr>count := c\<rparr>)\<rparr>)))"

definition checkDuplicateImage :: "AntiFraud \<Rightarrow> address \<Rightarrow> string \<Rightarrow> error + AntiFraud" where
  "checkDuplicateImage a worker h =
     (if usedImageHashes a h then Inl (DuplicateImageDetected h (imageHashToWorker a h))
      else Inr a)"

definition validateMetadata :: "nat \<Rightarrow> error + unit" where
  "validateMetadata m =
     (if m = 0 then Inl (InvalidMetadata ''Metadata hash cannot be empty'') else Inr ())"

definition recordSubmission ::
  "AntiFraud \<Rightarrow> nat \<Rightarrow> address \<Rightarrow> nat \<Rightarrow> string \<Rightarrow> nat \<Rightarrow> AntiFraud" where
  "recordSubmission a now worker taskId h m =
     a\<lparr>workerSubmissions := (workerSubmissions a)(worker :=
          workerSubmissions a worker @ [\<lparr>rec_timestamp = now, imageHash = h, metadataHash = m\<rparr>]),
       usedImageHashes := (usedImageHashes a)(h := True),
       imageHashToWorker := (imageHashToWorker a)(h := worker)\<rparr>"

definition checkAndRecordSubmission ::
  "AntiFraud \<Rightarrow> address \<Rightarrow> nat \<Rightarrow> address \<Rightarrow> nat \<Rightarrow> string \<Rightarrow> nat \<Rightarrow> error + AntiFraud" where
  "checkAndRecordSubmission a sender now worker taskId h m =
     (if sender \<noteq> af_verificationContractAddress a \<and> sender \<noteq> af_taskManagerAddress a
      then Inl (UnauthorizedCaller sender)
      else if blacklistedWorkers a worker then Inl (WorkerBlacklistedError worker)
      else bindE (checkRateLimit a now worker) (\<lambda>a1.
           bindE (checkDuplicateImage a1 worker h) (\<lambda>a2.
           bindE (validateMetadata m) (\<lambda>_.
             Inr (recordSubmission a2 now worker taskId h m)))))"

definition forfeitStake :: "AntiFraud \<Rightarrow> address \<Rightarrow> address \<Rightarrow> string \<Rightarrow> error + AntiFraud" where
  "forfeitStake a sender worker reason =
     (if sender \<noteq> af_verificationContractAddress a then Inl (UnauthorizedCaller sender)
      else if workerStakes a worker = 0 then Inl (NoStakeToForfeit worker)
      else Inr (a\<lparr>workerStakes := (workerStakes a)(worker := 0)\<rparr>))"

definition blacklistWorker :: "AntiFraud \<Rightarrow> address \<Rightarrow> address \<Rightarrow> string \<Rightarrow> error + AntiFraud" where
  "blacklistWorker a sender worker reason =
     (if sender \<noteq> af_owner a then Inl (OwnableUnauthorizedAccount sender)
      else Inr (a\<lparr>blacklistedWorkers := (blacklistedWorkers a)(worker := True)\<rparr>))"

definition unblacklistWorker :: "AntiFraud \<Rightarrow> address \<Rightarrow> address \<Rightarrow> error + AntiFraud" where
  "unblacklistWorker a sender worker =
     (if sender \<noteq> af_owner a then Inl (OwnableUnauthorizedAccount sender)
      else Inr (a\<lparr>blacklistedWorkers := (blacklistedWorkers a)(worker := False)\<rparr>))"

definition af_setVerificationContract :: "AntiFraud \<Rightarrow> address \<Rightarrow> address \<Rightarrow> error + AntiFraud" where
  "af_setVerificationContract a sender x =
     (if sender \<noteq> af_owner a then Inl (OwnableUnauthorizedAccount sender)
      else if x = 0 then Inl (InvalidAddress x)
      else Inr (a\<lparr>af_verificationContractAddress := x\<rparr>))"

definition af_setTaskManager :: "AntiFraud \<Rightarrow> address \<Rightarrow> address \<Rightarrow> error + AntiFraud" where
  "af_setTaskManager a sender x =
     (if sender \<noteq> af_owner a then Inl (OwnableUnauthorizedAccount sender)
      else if x = 0 then Inl (InvalidAddress x)
      else Inr (a\<lparr>af_taskManagerAddress := x\<rparr>))"

datatype af_op =
    CheckAndRecordSubmission address nat string nat
  | ForfeitStake address string
  | BlacklistWorker address string
  | UnblacklistWorker address
  | SetVerificationContract address
  | SetTaskManager address

text \<open>A call is the sender, the block timestamp and the operation.\<close>

fun af_call :: "AntiFraud \<Rightarrow> address \<times> nat \<times> af_op \<Rightarrow> error + AntiFraud" where
  "af_call a (sender, now, CheckAndRecordSubmission worker taskId h m) =
     checkAndRecordSubmission a sender now worker taskId h m"
| "af_call a (sender, now, ForfeitStake worker reason) = forfeitStake a sender worker reason"
| "af_call a (sender, now, BlacklistWorker worker reason) = blacklistWorker a sender worker reason"
| "af_call a (sender, now, UnblacklistWorker worker) = unblacklistWorker a sender worker"
| "af_call a (sender, now, SetVerificationContract x) = af_setVerificationContract a sender x"
| "af_call a (sender, now, SetTaskManager x) = af_setTaskManager a sender x"

fun af_run :: "AntiFraud \<Rightarrow> (address \<times> nat \<times> af_op) list \<Rightarrow> AntiFraud" where
  "af_run a [] = a"
| "af_run a (c # cs) = af_run (commit a (af_call a c)) cs"

section \<open>TaskManager\<close>

definition MINIMUM_BOUNTY :: nat where "MINIMUM_BOUNTY = 5 * 10 ^ 17"
definition MAX_ACTIVE_TASKS_PER_WORKER :: nat where "MAX_ACTIVE_TASKS_PER_WORKER = 3"
definition TASK_COMPLETION_TIMEOUT :: nat where "TASK_COMPLETION_TIMEOUT = 86400"

definition tm_setAntiFraud :: "TaskManager \<Rightarrow> address \<Rightarrow> address \<Rightarrow> error + TaskManager" where
  "tm_setAntiFraud t sender x =
     (if sender \<noteq> tm_owner t then Inl (OwnableUnauthorizedAccount sender)
      else if x = 0 then Inl (RequireFailed ''Invalid address'')
      else Inr (t\<lparr>antiFraudAddress := x\<rparr>))"

text \<open>\<open>createTask\<close> is payable: \<open>msg_value\<close> is the amount attached to the call,
  \<open>bountyAmount\<close> is an ordinary argument. The body never reads \<open>msg.value\<close> and the
  contract holds no reference to the BountyPool.\<close>

definition createTask ::
  "world \<Rightarrow> address \<Rightarrow> nat \<Rightarrow> nat \<Rightarrow> string \<Rightarrow> TaskCategory \<Rightarrow> nat \<Rightarrow> nat \<Rightarrow> Location \<Rightarrow> nat
     \<Rightarrow> TaskRequirements \<Rightarrow> error + (nat \<times> world)" where
  "createTask w sender msg_value now descr cat bounty maxW loc dl reqs =
     bindE (attach_value w sender (tmAddr w) msg_value) (\<lambda>w1.
       if bounty < MINIMUM_BOUNTY then Inl (TM_InsufficientBounty bounty MINIMUM_BOUNTY)
       else if dl \<le> now then Inl (DeadlineExpired 0 dl)
       else
         let taskId = taskIdCounter (tm w1) in
         bindE (checked_add (taskIdCounter (tm w1)) 1) (\<lambda>next.
           Inr (taskId,
                w1\<lparr>tm := (tm w1)\<lparr>taskIdCounter := next,
                     tasks := (tasks (tm w1))(taskId :=
                       \<lparr>task_id = taskId, creator = sender, description = descr, category = cat,
                        bountyAmount = bounty, maxWorkers = maxW, location = loc, deadline = dl,
                        task_status = ACTIVE, requirements = reqs, submissionCount = 0,
                        verifiedCount = 0, createdAt = now\<rparr>)\<rparr>\<rparr>)))"

definition claimTask :: "world \<Rightarrow> address \<Rightarrow> nat \<Rightarrow> nat \<Rightarrow> error + (bool \<times> world)" where
  "claimTask w sender now taskId =
     (let t = tasks (tm w) taskId in
      if task_id t \<noteq> taskId then Inl (InvalidTaskId taskId)
      else if task_status t \<noteq> ACTIVE then Inl (TaskNotActive taskId)
      else if now > deadline t then Inl (DeadlineExpired taskId (deadline t))
      else if claim_worker (taskClaims (tm w) taskId sender) \<noteq> 0
      then Inl (WorkerAlreadyClaimed sender taskId)
      else if length (workerActiveTasks (tm w) sender) \<ge> MAX_ACTIVE_TASKS_PER_WORKER
      then Inl (MaxActiveTasksReached sender)
      else if length (taskWorkers (tm w) taskId) \<ge> maxWorkers t then Inl (TaskNotActive taskId)
      else
        let workers' = taskWorkers (tm w) taskId @ [sender];
            t' = (if task_status t = ACTIVE \<and> length workers' > 0
                  then t\<lparr>task_status := IN_PROGRESS\<rparr> else t)
        in Inr (True,
                w\<lparr>tm := (tm w)\<lparr>
                     taskClaims := (taskClaims (tm w))(taskId :=
                        (taskClaims (tm w) taskId)(sender :=
                           \<lparr>claim_worker = sender, claimedAt = now, completed = False\<rparr>)),
                     workerActiveTasks := (workerActiveTasks (tm w))(sender :=
                        workerActiveTasks (tm w) sender @ [taskId]),
                     taskWorkers := (taskWorkers (tm w))(taskId := workers'),
                     tasks := (tasks (tm w))(taskId := t')\<rparr>\<rparr>))"

text \<open>The planar check of \<open>_isWithinRadius\<close>: squared differences of the scaled
  coordinates against the squared radius rescaled by \<open>1e12 / (111000 * 111000)\<close>.\<close>

definition isWithinRadius :: "Location \<Rightarrow> Location \<Rightarrow> error + bool" where
  "isWithinRadius required provided =
     bindE (checked_isub (latitude required) (latitude provided)) (\<lambda>latDiff.
     bindE (checked_isub (longitude required) (longitude provided)) (\<lambda>lonDiff.
     bindE (checked_imul latDiff latDiff) (\<lambda>a.
     bindE (checked_imul lonDiff lonDiff) (\<lambda>b.
     bindE (checked_iadd a b) (\<lambda>s.
       let distanceSquared = nat s in
       bindE (checked_mul (radius required) (radius required)) (\<lambda>radiusSquared.
         let scaleFactor = 10 ^ 12 in
         bindE (checked_mul radiusSquared scaleFactor) (\<lambda>scaled.
           Inr (distanceSquared \<le> scaled div (111000 * 111000)))))))))"

text \<open>The loop of \<open>_removeActiveTask\<close>, from index \<open>i\<close>: the first occurrence is
  overwritten by the last element, the last element is popped, and the loop breaks.\<close>

function removeActiveTask_from :: "nat list \<Rightarrow> nat \<Rightarrow> nat \<Rightarrow> nat list" where
  "removeActiveTask_from activeTasks taskId i =
     (if i < length activeTasks then
        (if activeTasks ! i = taskId
         then butlast (activeTasks[i := activeTasks ! (length activeTasks - 1)])
         else removeActiveTask_from activeTasks taskId (Suc i))
      else activeTasks)"
  by pat_completeness auto
termination
  by (relation "measure (\<lambda>(xs, t, i). length xs - i)") auto

definition removeActiveTask :: "TaskManager \<Rightarrow> address \<Rightarrow> nat \<Rightarrow> TaskManager" where
  "removeActiveTask m worker taskId =
     m\<lparr>workerActiveTasks := (workerActiveTasks m)(worker :=
          removeActiveTask_from (workerActiveTasks m worker) taskId 0)\<rparr>"

text \<open>The high-level call \<open>IAntiFraud(antiFraudAddress).checkAndRecordSubmission(...)\<close>: it
  reaches the AntiFraud contract when the configured address is that contract's, with the
  TaskManager as \<open>msg.sender\<close>; a revert of the callee reverts the caller.\<close>

definition call_checkAndRecordSubmission ::
  "world \<Rightarrow> address \<Rightarrow> address \<Rightarrow> nat \<Rightarrow> address \<Rightarrow> nat \<Rightarrow> string \<Rightarrow> nat \<Rightarrow> error + world" where
  "call_checkAndRecordSubmission w target caller now worker taskId h m =
     (if target \<noteq> afAddr w then Inl (CallToNonContract target)
      else bindE (checkAndRecordSubmission (af w) caller now worker taskId h m) (\<lambda>a.
             Inr (w\<lparr>af := a\<rparr>)))"

definition submitTaskCompletion ::
  "world \<Rightarrow> address \<Rightarrow> nat \<Rightarrow> nat \<Rightarrow> string \<Rightarrow> Location \<Rightarrow> error + (nat \<times> world)" where
  "submitTaskCompletion w sender now taskId h submissionLocation =
     (let t = tasks (tm w) taskId; claim = taskClaims (tm w) taskId sender in
      if task_id t \<noteq> taskId then Inl (InvalidTaskId taskId)
      else if claim_worker claim = 0 then Inl (TaskNotClaimed sender taskId)
      else if now > deadline t then Inl (DeadlineExpired taskId (deadline t))
      else
        bindE (checked_add (claimedAt claim) TASK_COMPLETION_TIMEOUT) (\<lambda>claimDeadline.
        if now > claimDeadline then Inl (DeadlineExpired taskId claimDeadline)
        else
          bindE (if requiresLocation (requirements t)
                 then bindE (isWithinRadius (location t) submissionLocation) (\<lambda>isWithin.
                        if \<not> isWithin
                        then Inl (OutsideLocationRadius (latitude (location t)) (longitude (location t))
                                    (latitude submissionLocation) (longitude submissionLocation))
                        else Inr ())
                 else Inr ()) (\<lambda>_.
          bindE (if antiFraudAddress (tm w) \<noteq> 0
                 then call_checkAndRecordSubmission w (antiFraudAddress (tm w)) (tmAddr w) now
                        sender taskId h
                        (keccakMetadata w taskId sender h now (latitude submissionLocation)
                           (longitude submissionLocation))
                 else Inr w) (\<lambda>w1.
            let m1 = (tm w1)\<lparr>taskClaims := (taskClaims (tm w1))(taskId :=
                        (taskClaims (tm w1) taskId)(sender := claim\<lparr>completed := True\<rparr>))\<rparr>;
                m2 = removeActiveTask m1 sender taskId
            in bindE (checked_add (submissionCount (tasks m2 taskId)) 1) (\<lambda>n.
                 Inr (n, w1\<lparr>tm := m2\<lparr>tasks := (tasks m2)(taskId :=
                                   (tasks m2 taskId)\<lparr>submissionCount := n\<rparr>)\<rparr>\<rparr>))))))"

definition expireTask :: "world \<Rightarrow> address \<Rightarrow> nat \<Rightarrow> nat \<Rightarrow> error + (bool \<times> world)" where
  "expireTask w sender now taskId =
     (let t = tasks (tm w) taskId in
      if task_id t \<noteq> taskId then Inl (InvalidTaskId taskId)
      else if now \<le> deadline t then Inl (DeadlineExpired taskId (deadline t))
      else if task_status t = EXPIRED \<or> task_status t = COMPLETED then Inr (False, w)
      else Inr (True, w\<lparr>tm := (tm w)\<lparr>tasks := (tasks (tm w))(taskId :=
                          t\<lparr>task_status := EXPIRED\<rparr>)\<rparr>\<rparr>))"

section \<open>VerificationContract\<close>

definition VERIFICATION_STAKE :: nat where "VERIFICATION_STAKE = 10 ^ 17"
definition CONSENSUS_THRESHOLD :: nat where "CONSENSUS_THRESHOLD = 3"
definition MAX_VERIFIERS :: nat where "MAX_VERIFIERS = 7"
definition VERIFICATION_REWARD_PERCENTAGE :: nat where "VERIFICATION_REWARD_PERCENTAGE = 1000"
definition REWARD_DISTRIBUTION_DELAY :: nat where "REWARD_DISTRIBUTION_DELAY = 300"

definition vc_setBountyPool ::
  "VerificationContract \<Rightarrow> address \<Rightarrow> address \<Rightarrow> error + VerificationContract" where
  "vc_setBountyPool v sender x =
     (if sender \<noteq> vc_owner v then Inl (OwnableUnauthorizedAccount sender)
      else if x = 0 then Inl (InvalidAddress x)
      else Inr (v\<lparr>bountyPoolAddress := x\<rparr>))"

definition vc_setReputationContract ::
  "VerificationContract \<Rightarrow> address \<Rightarrow> address \<Rightarrow> error + VerificationContract" where
  "vc_setReputationContract v sender x =
     (if sender \<noteq> vc_owner v then Inl (OwnableUnauthorizedAccount sender)
      else if x = 0 then Inl (InvalidAddress x)
      else Inr (v\<lparr>reputationContractAddress := x\<rparr>))"

definition vc_setTaskManager ::
  "VerificationContract \<Rightarrow> address \<Rightarrow> address \<Rightarrow> error + VerificationContract" where
  "vc_setTaskManager v sender x =
     (if sender \<noteq> vc_owner v then Inl (OwnableUnauthorizedAccount sender)
      else if x = 0 then Inl (InvalidAddress x)
      else Inr (v\<lparr>vc_taskManagerAddress := x\<rparr>))"

definition vc_setAntiFraud ::
  "VerificationContract \<Rightarrow> address \<Rightarrow> address \<Rightarrow> error + VerificationContract" where
  "vc_setAntiFraud v sender x =
     (if sender \<noteq> vc_owner v then Inl (OwnableUnauthorizedAccount sender)
      else if x = 0 then Inl (InvalidAddress x)
      else Inr (v\<lparr>vc_antiFraudAddress := x\<rparr>))"

text \<open>High-level calls from the VerificationContract to the contracts it is wired to.\<close>

definition call_updateWorkerReputation ::
  "world \<Rightarrow> address \<Rightarrow> address \<Rightarrow> bool \<Rightarrow> error + world" where
  "call_updateWorkerReputation w target worker successful =
     (if target \<noteq> rcAddr w then Inl (CallToNonContract target)
      else bindE (updateWorkerReputation (rc w) (vcAddr w) worker successful) (\<lambda>r.
             Inr (w\<lparr>rc := r\<rparr>)))"

definition call_updateVerifierReputation ::
  "world \<Rightarrow> address \<Rightarrow> address \<Rightarrow> bool \<Rightarrow> error + world" where
  "call_updateVerifierReputation w target verifier accurate =
     (if target \<noteq> rcAddr w then Inl (CallToNonContract target)
      else bindE (updateVerifierReputation (rc w) (vcAddr w) verifier accurate) (\<lambda>r.
             Inr (w\<lparr>rc := r\<rparr>)))"

definition call_forfeitStake :: "world \<Rightarrow> address \<Rightarrow> address \<Rightarrow> string \<Rightarrow> error + world" where
  "call_forfeitStake w target worker reason =
     (if target \<noteq> afAddr w then Inl (CallToNonContract target)
      else bindE (forfeitStake (af w) (vcAddr w) worker reason) (\<lambda>a. Inr (w\<lparr>af := a\<rparr>)))"

definition call_distributeReward ::
  "world \<Rightarrow> address \<Rightarrow> nat \<Rightarrow> address \<Rightarrow> nat \<Rightarrow> error + world" where
  "call_distributeReward w target taskId worker amount =
     (if target \<noteq> bpAddr w then Inl (CallToNonContract target)
      else distributeReward w (vcAddr w) taskId worker amount)"

definition createSubmission ::
  "world \<Rightarrow> address \<Rightarrow> nat \<Rightarrow> nat \<Rightarrow> address \<Rightarrow> string \<Rightarrow> Location \<Rightarrow> nat \<Rightarrow> error + (nat \<times> world)" where
  "createSubmission w sender now taskId worker h loc bounty =
     (if sender \<noteq> vc_taskManagerAddress (vc w) then Inl (UnauthorizedCaller sender)
      else
        let submissionId = submissionIdCounter (vc w) in
        bindE (checked_add (submissionIdCounter (vc w)) 1) (\<lambda>next.
          Inr (submissionId,
               w\<lparr>vc := (vc w)\<lparr>submissionIdCounter := next,
                    submissions := (submissions (vc w))(submissionId :=
                      \<lparr>sub_id = submissionId, sub_taskId = taskId, sub_worker = worker,
                       ipfsHash = h, sub_timestamp = now, sub_location = loc,
                       sub_status = PENDING, approvalCount = 0, rejectionCount = 0,
                       totalVotes = 0, sub_bountyAmount = bounty,
                       rewardDistributed = False\<rparr>)\<rparr>\<rparr>)))"

definition stakeForVerification :: "world \<Rightarrow> address \<Rightarrow> nat \<Rightarrow> nat \<Rightarrow> error + world" where
  "stakeForVerification w sender msg_value submissionId =
     bindE (attach_value w sender (vcAddr w) msg_value) (\<lambda>w1.
       let submission = submissions (vc w1) submissionId in
       if sub_id submission \<noteq> submissionId then Inl (SubmissionNotFound submissionId)
       else if sub_status submission \<noteq> PENDING \<and> sub_status submission \<noteq> DISPUTED
       then Inl (AlreadyVerified submissionId)
       else if hasVoted (verificationVotes (vc w1) submissionId sender)
       then Inl (AlreadyVoted sender submissionId)
       else if length (submissionVerifiers (vc w1) submissionId) \<ge> MAX_VERIFIERS
       then Inl (MaxVerifiersReached submissionId)
       else if sender = sub_worker submission then Inl (WorkerCannotVerifyOwnSubmission sender)
       else if msg_value < VERIFICATION_STAKE
       then Inl (InsufficientStake msg_value VERIFICATION_STAKE)
       else Inr (w1\<lparr>vc := (vc w1)\<lparr>
                   verificationVotes := (verificationVotes (vc w1))(submissionId :=
                      (verificationVotes (vc w1) submissionId)(sender :=
                         (verificationVotes (vc w1) submissionId sender)\<lparr>stake := msg_value\<rparr>)),
                   submissionVerifiers := (submissionVerifiers (vc w1))(submissionId :=
                      submissionVerifiers (vc w1) submissionId @ [sender])\<rparr>\<rparr>))"

definition checkConsensus :: "world \<Rightarrow> nat \<Rightarrow> nat \<Rightarrow> error + world" where
  "checkConsensus w now submissionId =
     (let submission = submissions (vc w) submissionId in
      if approvalCount submission \<ge> CONSENSUS_THRESHOLD then
        let w1 = w\<lparr>vc := (vc w)\<lparr>
                   submissions := (submissions (vc w))(submissionId :=
                      submission\<lparr>sub_status := VERIFIED\<rparr>),
                   consensusReachedAt := (consensusReachedAt (vc w))(submissionId := now)\<rparr>\<rparr>
        in if reputationContractAddress (vc w1) \<noteq> 0
           then call_updateWorkerReputation w1 (reputationContractAddress (vc w1))
                  (sub_worker submission) True
           else Inr w1
      else if rejectionCount submission \<ge> CONSENSUS_THRESHOLD then
        let w1 = w\<lparr>vc := (vc w)\<lparr>
                   submissions := (submissions (vc w))(submissionId :=
                      submission\<lparr>sub_status := REJECTED\<rparr>),
                   consensusReachedAt := (consensusReachedAt (vc w))(submissionId := now)\<rparr>\<rparr>
        in bindE (if reputationContractAddress (vc w1) \<noteq> 0
                  then call_updateWorkerReputation w1 (reputationContractAddress (vc w1))
                         (sub_worker submission) False
                  else Inr w1) (\<lambda>w2.
             if vc_antiFraudAddress (vc w2) \<noteq> 0
             then call_forfeitStake w2 (vc_antiFraudAddress (vc w2)) (sub_worker submission)
                    ''Submission rejected by consensus''
             else Inr w2)
      else if totalVotes submission \<ge> MAX_VERIFIERS then
        Inr (w\<lparr>vc := (vc w)\<lparr>submissions := (submissions (vc w))(submissionId :=
                        submission\<lparr>sub_status := DISPUTED\<rparr>)\<rparr>\<rparr>)
      else Inr w)"

definition submitVerification ::
  "world \<Rightarrow> address \<Rightarrow> nat \<Rightarrow> nat \<Rightarrow> bool \<Rightarrow> string \<Rightarrow> error + world" where
  "submitVerification w sender now submissionId appr feedback =
     (let submission = submissions (vc w) submissionId;
          vote = verificationVotes (vc w) submissionId sender
      in if sub_id submission \<noteq> submissionId then Inl (SubmissionNotFound submissionId)
         else if stake vote = 0 then Inl (InsufficientStake 0 VERIFICATION_STAKE)
         else if hasVoted vote then Inl (AlreadyVoted sender submissionId)
         else
           bindE (checked_add (totalVotes submission) 1) (\<lambda>tv.
           bindE (if appr then checked_add (approvalCount submission) 1
                  else checked_add (rejectionCount submission) 1) (\<lambda>c.
             checkConsensus
               (w\<lparr>vc := (vc w)\<lparr>
                   verificationVotes := (verificationVotes (vc w))(submissionId :=
                      (verificationVotes (vc w) submissionId)(sender :=
                         vote\<lparr>hasVoted := True, approved := appr, vote_timestamp := now\<rparr>)),
                   submissions := (submissions (vc w))(submissionId :=
                      (if appr then submission\<lparr>totalVotes := tv, approvalCount := c\<rparr>
                       else submission\<lparr>totalVotes := tv, rejectionCount := c\<rparr>))\<rparr>\<rparr>)
               now submissionId)))"

text \<open>The loop of \<open>_distributeVerifierRewards\<close> over the copied verifier list; the
  accumulator is \<open>totalReward\<close>.\<close>

fun distributeVerifierRewards_loop ::
  "world \<Rightarrow> nat \<Rightarrow> bool \<Rightarrow> address list \<Rightarrow> nat \<Rightarrow> error + world" where
  "distributeVerifierRewards_loop w submissionId consensusApproved [] totalReward = Inr w"
| "distributeVerifierRewards_loop w submissionId consensusApproved (verifier # rest) totalReward =
     (let vote = verificationVotes (vc w) submissionId verifier in
      if \<not> hasVoted vote
      then distributeVerifierRewards_loop w submissionId consensusApproved rest totalReward
      else if approved vote = consensusApproved then
        bindE (checked_mul (stake vote) VERIFICATION_REWARD_PERCENTAGE) (\<lambda>m.
        bindE (checked_add (stake vote) (m div BASIS_POINTS)) (\<lambda>reward.
        bindE (checked_add totalReward reward) (\<lambda>total'.
          case send_value w (vcAddr w) verifier reward of
            (success, w1) \<Rightarrow>
              if \<not> success then Inl (RequireFailed ''Verifier reward transfer failed'')
              else bindE (if reputationContractAddress (vc w1) \<noteq> 0
                          then call_updateVerifierReputation w1 (reputationContractAddress (vc w1))
                                 verifier True
                          else Inr w1) (\<lambda>w2.
                     distributeVerifierRewards_loop w2 submissionId consensusApproved rest total'))))
      else
        bindE (if reputationContractAddress (vc w) \<noteq> 0
               then call_updateVerifierReputation w (reputationContractAddress (vc w)) verifier False
               else Inr w) (\<lambda>w2.
          distributeVerifierRewards_loop w2 submissionId consensusApproved rest totalReward))"

definition distributeVerifierRewards :: "world \<Rightarrow> nat \<Rightarrow> error + world" where
  "distributeVerifierRewards w submissionId =
     distributeVerifierRewards_loop w submissionId
       (sub_status (submissions (vc w) submissionId) = VERIFIED)
       (submissionVerifiers (vc w) submissionId) 0"

definition distributeVerificationRewards :: "world \<Rightarrow> address \<Rightarrow> nat \<Rightarrow> nat \<Rightarrow> error + world" where
  "distributeVerificationRewards w sender now submissionId =
     (let submission = submissions (vc w) submissionId in
      if sub_id submission \<noteq> submissionId then Inl (SubmissionNotFound submissionId)
      else if sub_status submission \<noteq> VERIFIED \<and> sub_status submission \<noteq> REJECTED
      then Inl (ConsensusNotReached submissionId)
      else if rewardDistributed submission then Inl (RewardAlreadyDistributed submissionId)
      else
        bindE (checked_sub now (consensusReachedAt (vc w) submissionId)) (\<lambda>timeSinceConsensus.
        if timeSinceConsensus < REWARD_DISTRIBUTION_DELAY
        then Inl (RewardDistributionTooEarly submissionId
                    (REWARD_DISTRIBUTION_DELAY - timeSinceConsensus))
        else
          let w1 = w\<lparr>vc := (vc w)\<lparr>submissions := (submissions (vc w))(submissionId :=
                        submission\<lparr>rewardDistributed := True\<rparr>)\<rparr>\<rparr>
          in bindE (if sub_status submission = VERIFIED \<and> bountyPoolAddress (vc w1) \<noteq> 0
                    then call_distributeReward w1 (bountyPoolAddress (vc w1))
                           (sub_taskId submission) (sub_worker submission)
                           (sub_bountyAmount submission)
                    else Inr w1) (\<lambda>w2.
               distributeVerifierRewards w2 submissionId)))"

section \<open>Transactions\<close>

text \<open>
  The external state-changing functions of the five contracts as one datatype; the value
  attached to a payable function is its first argument. \<open>Receive\<close> is a plain transfer
  of ether to the BountyPool or the VerificationContract, the two contracts that declare
  \<open>receive() external payable {}\<close>. (\<open>transferOwnership\<close> and \<open>renounceOwnership\<close> come
  with OpenZeppelin's \<open>Ownable\<close>, whose source is not in the repository; they write the
  owner and nothing else, and are not among the calls.) A transaction is the sender, the
  block timestamp and the call; \<open>run\<close> applies a list of transactions in order, a
  reverted one leaving the world as it was.
\<close>

definition receive_ether :: "world \<Rightarrow> address \<Rightarrow> nat \<Rightarrow> address \<Rightarrow> error + world" where
  "receive_ether w sender msg_value target =
     (if target \<noteq> bpAddr w \<and> target \<noteq> vcAddr w then Inl (CallToNonContract target)
      else attach_value w sender target msg_value)"

datatype call =
    CreateTask nat string TaskCategory nat nat Location nat TaskRequirements
  | ClaimTask nat
  | SubmitTaskCompletion nat string Location
  | ExpireTask nat
  | DepositBounty nat nat
  | DistributeReward nat address nat
  | RefundBounty nat address nat
  | CreateSubmission nat address string Location nat
  | StakeForVerification nat nat
  | SubmitVerification nat bool string
  | DistributeVerificationRewards nat
  | Reputation rep_op
  | AntiFraudCall af_op
  | RC_SetVerificationContract address
  | RC_SetTaskManager address
  | TM_SetAntiFraud address
  | BP_SetTaskManager address
  | BP_SetVerificationContract address
  | WithdrawPlatformFees
  | VC_SetBountyPool address
  | VC_SetReputationContract address
  | VC_SetTaskManager address
  | VC_SetAntiFraud address
  | Receive nat address

definition dropResult :: "error + ('a \<times> world) \<Rightarrow> error + world" where
  "dropResult r = (case r of Inl e \<Rightarrow> Inl e | Inr (x, w') \<Rightarrow> Inr w')"

fun transact :: "world \<Rightarrow> address \<times> nat \<times> call \<Rightarrow> error + world" where
  "transact w (sender, now, CreateTask v d c b mw l dl rq) =
     dropResult (createTask w sender v now d c b mw l dl rq)"
| "transact w (sender, now, ClaimTask taskId) = dropResult (claimTask w sender now taskId)"
| "transact w (sender, now, SubmitTaskCompletion taskId h l) =
     dropResult (submitTaskCompletion w sender now taskId h l)"
| "transact w (sender, now, ExpireTask taskId) = dropResult (expireTask w sender now taskId)"
| "transact w (sender, now, DepositBounty v taskId) = depositBounty w sender v taskId"
| "transact w (sender, now, DistributeReward taskId worker amount) =
     distributeReward w sender taskId worker amount"
| "transact w (sender, now, RefundBounty taskId c amount) = refundBounty w sender taskId c amount"
| "transact w (sender, now, CreateSubmission taskId worker h l b) =
     dropResult (createSubmission w sender now taskId worker h l b)"
| "transact w (sender, now, StakeForVerification v submissionId) =
     stakeForVerification w sender v submissionId"
| "transact w (sender, now, SubmitVerification submissionId appr feedback) =
     submitVerification w sender now submissionId appr feedback"
| "transact w (sender, now, DistributeVerificationRewards submissionId) =
     distributeVerificationRewards w sender now submissionId"
| "transact w (sender, now, Reputation op) =
     bindE (rep_call (rc w) (sender, op)) (\<lambda>r. Inr (w\<lparr>rc := r\<rparr>))"
| "transact w (sender, now, AntiFraudCall op) =
     bindE (af_call (af w) (sender, now, op)) (\<lambda>a. Inr (w\<lparr>af := a\<rparr>))"
| "transact w (sender, now, RC_SetVerificationContract x) =
     bindE (rc_setVerificationContract (rc w) sender x) (\<lambda>r. Inr (w\<lparr>rc := r\<rparr>))"
| "transact w (sender, now, RC_SetTaskManager x) =
     bindE (rc_setTaskManager (rc w) sender x) (\<lambda>r. Inr (w\<lparr>rc := r\<rparr>))"
| "transact w (sender, now, TM_SetAntiFraud x) =
     bindE (tm_setAntiFraud (tm w) sender x) (\<lambda>t. Inr (w\<lparr>tm := t\<rparr>))"
| "transact w (sender, now, BP_SetTaskManager x) =
     bindE (bp_setTaskManager (bp w) sender x) (\<lambda>p. Inr (w\<lparr>bp := p\<rparr>))"
| "transact w (sender, now, BP_SetVerificationContract x) =
     bindE (bp_setVerificationContract (bp w) sender x) (\<lambda>p. Inr (w\<lparr>bp := p\<rparr>))"
| "transact w (sender, now, WithdrawPlatformFees) = withdrawPlatformFees w sender"
| "transact w (sender, now, VC_SetBountyPool x) =
     bindE (vc_setBountyPool (vc w) sender x) (\<lambda>v. Inr (w\<lparr>vc := v\<rparr>))"
| "transact w (sender, now, VC_SetReputationContract x) =
     bindE (vc_setReputationContract (vc w) sender x) (\<lambda>v. Inr (w\<lparr>vc := v\<rparr>))"
| "transact w (sender, now, VC_SetTaskManager x) =
     bindE (vc_setTaskManager (vc w) sender x) (\<lambda>v. Inr (w\<lparr>vc := v\<rparr>))"
| "transact w (sender, now, VC_SetAntiFraud x) =
     bindE (vc_setAntiFraud (vc w) sender x) (\<lambda>v. Inr (w\<lparr>vc := v\<rparr>))"
| "transact w (sender, now, Receive v target) = receive_ether w sender v target"

fun run :: "world \<Rightarrow> (address \<times> nat \<times> call) list \<Rightarrow> world" where
  "run w [] = w"
| "run w (t # ts) = run (commit w (transact w t)) ts"

section \<open>Deployment\<close>

text \<open>Freshly deployed storage is all zero except for the owner, which the constructor
  sets to the deployer.\<close>

definition zeroLocation :: Location where
  "zeroLocation = \<lparr>latitude = 0, longitude = 0, radius = 0\<rparr>"

definition zeroTask :: Task where
  "zeroTask = \<lparr>task_id = 0, creator = 0, description = [], category = PHOTO_VERIFICATION,
     bountyAmount = 0, maxWorkers = 0, location = zeroLocation, deadline = 0,
     task_status = ACTIVE,
     requirements = \<lparr>photoCount = 0, requiresLocation = False, minReputation = 0,
                      requiredBadge = PHOTO_VERIFICATION\<rparr>,
     submissionCount = 0, verifiedCount = 0, createdAt = 0\<rparr>"

definition zeroSubmission :: Submission where
  "zeroSubmission = \<lparr>sub_id = 0, sub_taskId = 0, sub_worker = 0, ipfsHash = [],
     sub_timestamp = 0, sub_location = zeroLocation, sub_status = PENDING, approvalCount = 0,
     rejectionCount = 0, totalVotes = 0, sub_bountyAmount = 0, rewardDistributed = False\<rparr>"

definition zeroVote :: Vote where
  "zeroVote = \<lparr>hasVoted = False, approved = False, vote_timestamp = 0, stake = 0\<rparr>"

definition zeroReputationData :: ReputationData where
  "zeroReputationData = \<lparr>score = 0, tasksCompleted = 0, tasksRejected = 0,
     verificationsPerformed = 0, accurateVerifications = 0,
     categoryStats = (\<lambda>_. \<lparr>successCount = 0, totalCount = 0, hasBadge = False\<rparr>)\<rparr>"

definition new_TaskManager :: "address \<Rightarrow> TaskManager" where
  "new_TaskManager deployer = \<lparr>taskIdCounter = 0, tasks = (\<lambda>_. zeroTask),
     workerActiveTasks = (\<lambda>_. []),
     taskClaims = (\<lambda>_ _. \<lparr>claim_worker = 0, claimedAt = 0, completed = False\<rparr>),
     taskWorkers = (\<lambda>_. []), antiFraudAddress = 0, tm_owner = deployer\<rparr>"

definition new_BountyPool :: "address \<Rightarrow> BountyPool" where
  "new_BountyPool deployer = \<lparr>taskBounties = (\<lambda>_. 0), accumulatedFees = 0,
     bp_taskManagerAddress = 0, bp_verificationContractAddress = 0, bp_owner = deployer\<rparr>"

definition new_VerificationContract :: "address \<Rightarrow> VerificationContract" where
  "new_VerificationContract deployer = \<lparr>submissionIdCounter = 0,
     submissions = (\<lambda>_. zeroSubmission), verificationVotes = (\<lambda>_ _. zeroVote),
     submissionVerifiers = (\<lambda>_. []), consensusReachedAt = (\<lambda>_. 0), bountyPoolAddress = 0,
     reputationContractAddress = 0, vc_taskManagerAddress = 0, vc_antiFraudAddress = 0,
     vc_owner = deployer\<rparr>"

definition new_ReputationContract :: "address \<Rightarrow> ReputationContract" where
  "new_ReputationContract deployer = \<lparr>reputations = (\<lambda>_. zeroReputationData),
     rc_verificationContractAddress = 0, rc_taskManagerAddress = 0, rc_owner = deployer\<rparr>"

definition new_AntiFraud :: "address \<Rightarrow> AntiFraud" where
  "new_AntiFraud deployer = \<lparr>workerDailySubmissions = (\<lambda>_. \<lparr>date = 0, count = 0\<rparr>),
     workerSubmissions = (\<lambda>_. []), usedImageHashes = (\<lambda>_. False),
     imageHashToWorker = (\<lambda>_. 0), workerStakes = (\<lambda>_. 0), blacklistedWorkers = (\<lambda>_. False),
     af_verificationContractAddress = 0, af_taskManagerAddress = 0, af_owner = deployer\<rparr>"

text \<open>
  The deployment of the repository's test suite (\<open>beforeEach\<close> of CoreContracts.test.ts):
  the five contracts deployed by account 1, BountyPool wired to the TaskManager and the
  VerificationContract, the VerificationContract wired to the BountyPool, the
  ReputationContract and the TaskManager, the ReputationContract wired to the
  VerificationContract and the TaskManager. Accounts 1 to 12 are externally owned and hold
  10 ether each; account 2 is the task creator, 3 and 4 are workers, 5 to 11 verifiers.
  The contracts live at addresses 101 to 105 and the VerificationContract holds 1 ether
  for verifier bonuses (the tests fund it the same way).
\<close>

definition ether :: nat where "ether = 10 ^ 18"

definition test_world :: world where
  "test_world = \<lparr>
     balances = (\<lambda>a. if 1 \<le> a \<and> a \<le> 12 then 10 * ether else if a = 103 then ether else 0),
     refusesEther = (\<lambda>a. a = 101 \<or> a = 104 \<or> a = 105),
     keccakMetadata = (\<lambda>taskId sender h now lat lon. 1 + taskId + sender + now),
     tmAddr = 101, bpAddr = 102, vcAddr = 103, rcAddr = 104, afAddr = 105,
     tm = new_TaskManager 1,
     bp = (new_BountyPool 1)\<lparr>bp_taskManagerAddress := 101, bp_verificationContractAddress := 103\<rparr>,
     vc = (new_VerificationContract 1)\<lparr>bountyPoolAddress := 102,
            reputationContractAddress := 104, vc_taskManagerAddress := 101\<rparr>,
     rc = (new_ReputationContract 1)\<lparr>rc_verificationContractAddress := 103,
            rc_taskManagerAddress := 101\<rparr>,
     af = new_AntiFraud 1\<rparr>"

section \<open>Scenarios and invariants used by the theorems\<close>

text \<open>Ten rejected tasks in a row for worker 3, each reported by the VerificationContract
  (address 103).\<close>

definition ten_failures :: "(address \<times> rep_op) list" where
  "ten_failures = [(103, UpdateWorkerReputation 3 False), (103, UpdateWorkerReputation 3 False),
    (103, UpdateWorkerReputation 3 False), (103, UpdateWorkerReputation 3 False),
    (103, UpdateWorkerReputation 3 False), (103, UpdateWorkerReputation 3 False),
    (103, UpdateWorkerReputation 3 False), (103, UpdateWorkerReputation 3 False),
    (103, UpdateWorkerReputation 3 False), (103, UpdateWorkerReputation 3 False)]"

definition rep_bounded :: "ReputationContract \<Rightarrow> bool" where
  "rep_bounded r = (\<forall>u. score (reputations r u) \<le> MAX_REPUTATION)"

text \<open>The BountyPool tests call the pool directly: the owner (account 1) is set as the
  pool's task manager and deposits 1 ether for task 0.\<close>

definition funded_world :: world where
  "funded_world = run (test_world\<lparr>bp := (bp test_world)\<lparr>bp_taskManagerAddress := 1\<rparr>\<rparr>)
     [(1, 500, DepositBounty ether 0)]"

text \<open>The AntiFraud tests wire the contract to a task manager before submitting; here
  the owner (account 1) registers the TaskManager at 101.\<close>

definition wired_af :: AntiFraud where
  "wired_af = commit (new_AntiFraud 1) (af_setTaskManager (new_AntiFraud 1) 1 101)"

text \<open>Worker 3 submits content hash \<open>QmTestHash123\<close> through the TaskManager at time
  1000; later the owner blacklists and clears worker 4, and worker 4 submits another hash.\<close>

definition first_af :: AntiFraud where
  "first_af = commit wired_af
     (checkAndRecordSubmission wired_af 101 1000 3 0 ''QmTestHash123'' 7)"

definition later_calls :: "(address \<times> nat \<times> af_op) list" where
  "later_calls = [(1, 2000, BlacklistWorker 4 ''review''), (1, 2001, UnblacklistWorker 4),
     (101, 2002, CheckAndRecordSubmission 4 1 ''QmOtherHash'' 9)]"

text \<open>The global index entry of a content hash: the hash is marked used and mapped to
  the worker.\<close>

definition claimed_by :: "AntiFraud \<Rightarrow> string \<Rightarrow> address \<Rightarrow> bool" where
  "claimed_by a h w = (usedImageHashes a h \<and> imageHashToWorker a h = w)"

definition demo_location :: Location where
  "demo_location = \<lparr>latitude = 40748817, longitude = - 73985428, radius = 100\<rparr>"

definition demo_requirements :: TaskRequirements where
  "demo_requirements = \<lparr>photoCount = 1, requiresLocation = False, minReputation = 0,
     requiredBadge = PHOTO_VERIFICATION\<rparr>"

text \<open>Account 2 creates task 0 at time 1000 with deadline 2000, declaring a bounty of
  1 ether and attaching 1 ether, in the world where the pool already holds 1 ether for
  task 0.\<close>

definition task_world :: world where
  "task_world = run funded_world
     [(2, 1000, CreateTask ether ''Test task'' PHOTO_VERIFICATION ether 5
         demo_location 2000 demo_requirements)]"

text \<open>Account 2 creates four tasks with deadline 1000000; worker 3 claims tasks 0, 1 and
  2 at time 1000.\<close>

definition three_claims_world :: world where
  "three_claims_world = run test_world
     [(2, 900, CreateTask MINIMUM_BOUNTY ''Task 0'' PHOTO_VERIFICATION MINIMUM_BOUNTY 5
         demo_location 1000000 demo_requirements),
      (2, 900, CreateTask MINIMUM_BOUNTY ''Task 1'' PHOTO_VERIFICATION MINIMUM_BOUNTY 5
         demo_location 1000000 demo_requirements),
      (2, 900, CreateTask MINIMUM_BOUNTY ''Task 2'' PHOTO_VERIFICATION MINIMUM_BOUNTY 5
         demo_location 1000000 demo_requirements),
      (2, 900, CreateTask MINIMUM_BOUNTY ''Task 3'' PHOTO_VERIFICATION MINIMUM_BOUNTY 5
         demo_location 1000000 demo_requirements),
      (3, 1000, ClaimTask 0), (3, 1000, ClaimTask 1), (3, 1000, ClaimTask 2)]"

text \<open>Account 2 creates task 0 with a geofence of 100 m around \<open>demo_location\<close> and the
  location requirement set; worker 3 claims it at time 1000.\<close>

definition geo_world :: world where
  "geo_world = run test_world
     [(2, 900, CreateTask MINIMUM_BOUNTY ''Storefront photo'' PHOTO_VERIFICATION MINIMUM_BOUNTY 5
         demo_location 1000000 (demo_requirements\<lparr>requiresLocation := True\<rparr>)),
      (3, 1000, ClaimTask 0)]"

section \<open>The haversine formula, as the specification words it\<close>

text \<open>
  The great-circle distance in metres between two points given in degrees, by the
  haversine formula on a sphere of radius 6371 km (the radius the repository's mobile
  client uses in \<open>calculateDistance\<close>), over the reals. \<open>haversine_within\<close> is the geofence
  test the specification describes, on the contract's coordinates (degrees scaled by
  \<open>1e6\<close>, radius in metres). It is here to be compared with \<open>isWithinRadius\<close>.
\<close>

definition EARTH_RADIUS :: real where
  "EARTH_RADIUS = 6371000"

definition haversine_distance :: "real \<Rightarrow> real \<Rightarrow> real \<Rightarrow> real \<Rightarrow> real" where
  "haversine_distance lat1 lon1 lat2 lon2 =
     (let phi1 = lat1 * pi / 180;
          phi2 = lat2 * pi / 180;
          dphi = (lat2 - lat1) * pi / 180;
          dlam = (lon2 - lon1) * pi / 180;
          a = (sin (dphi / 2))\<^sup>2 + cos phi1 * cos phi2 * (sin (dlam / 2))\<^sup>2
      in 2 * EARTH_RADIUS * arcsin (sqrt a))"

definition haversine_within :: "Location \<Rightarrow> Location \<Rightarrow> bool" where
  "haversine_within required provided =
     (haversine_distance (real_of_int (latitude required) / 10 ^ 6)
        (real_of_int (longitude required) / 10 ^ 6)
        (real_of_int (latitude provided) / 10 ^ 6)
        (real_of_int (longitude provided) / 10 ^ 6)
      \<le> real (radius required))"

text \<open>Two geofenced tasks for the comparison: one on the antimeridian with a radius of
  100 m, one at latitude 0, longitude 0 with a radius of 111000 m; worker 3 claims each.\<close>

definition meridian_world :: world where
  "meridian_world = run test_world
     [(2, 900, CreateTask MINIMUM_BOUNTY ''Date line'' LOCATION_CHECK MINIMUM_BOUNTY 5
         \<lparr>latitude = 0, longitude = 180000000, radius = 100\<rparr> 1000000
         (demo_requirements\<lparr>requiresLocation := True\<rparr>)),
      (3, 1000, ClaimTask 0)]"

definition degree_world :: world where
  "degree_world = run test_world
     [(2, 900, CreateTask MINIMUM_BOUNTY ''Wide fence'' LOCATION_CHECK MINIMUM_BOUNTY 5
         \<lparr>latitude = 0, longitude = 0, radius = 111000\<rparr> 1000000
         (demo_requirements\<lparr>requiresLocation := True\<rparr>)),
      (3, 1000, ClaimTask 0)]"

text \<open>What a call returns, without the new world.\<close>

definition returned :: "error + ('a \<times> world) \<Rightarrow> error + 'a" where
  "returned r = (case r of Inl e \<Rightarrow> Inl e | Inr (x, w') \<Rightarrow> Inr x)"

text \<open>
  The VerificationContract tests act as the task manager themselves: the owner (account 1)
  is registered as task manager of the VerificationContract and of the BountyPool,
  deposits the bounty of task 0 and opens submission 0 for worker 3.
\<close>

definition submission_world :: world where
  "submission_world =
     run (test_world\<lparr>vc := (vc test_world)\<lparr>vc_taskManagerAddress := 1\<rparr>,
                      bp := (bp test_world)\<lparr>bp_taskManagerAddress := 1\<rparr>\<rparr>)
       [(1, 500, DepositBounty MINIMUM_BOUNTY 0),
        (1, 1000, CreateSubmission 0 3 ''QmTestHash123'' demo_location MINIMUM_BOUNTY)]"

text \<open>Six verifiers (accounts 5 to 10) stake; 5, 6 and 7 reject.\<close>

definition rejected_world :: world where
  "rejected_world = run submission_world
     [(5, 1100, StakeForVerification VERIFICATION_STAKE 0),
      (6, 1100, StakeForVerification VERIFICATION_STAKE 0),
      (7, 1100, StakeForVerification VERIFICATION_STAKE 0),
      (8, 1100, StakeForVerification VERIFICATION_STAKE 0),
      (9, 1100, StakeForVerification VERIFICATION_STAKE 0),
      (10, 1100, StakeForVerification VERIFICATION_STAKE 0),
      (5, 1200, SubmitVerification 0 False ''''),
      (6, 1201, SubmitVerification 0 False ''''),
      (7, 1202, SubmitVerification 0 False '''')]"

text \<open>The three verifiers who staked before the rejection and had not voted approve.\<close>

definition late_approvals :: "(address \<times> nat \<times> call) list" where
  "late_approvals =
     [(8, 1300, SubmitVerification 0 True ''''),
      (9, 1301, SubmitVerification 0 True ''''),
      (10, 1302, SubmitVerification 0 True '''')]"



text \<open>The submissions, votes and verifier lists are the same in two worlds (the wiring
  of the VerificationContract may differ).\<close>

definition same_submissions :: "world \<Rightarrow> world \<Rightarrow> bool" where
  "same_submissions w w' =
     (submissionIdCounter (vc w') = submissionIdCounter (vc w) \<and>
      submissions (vc w') = submissions (vc w) \<and>
      verificationVotes (vc w') = verificationVotes (vc w) \<and>
      submissionVerifiers (vc w') = submissionVerifiers (vc w))"

text \<open>The bookkeeping invariant of the votes on a submission: the two counts add up to the
  total, every counted vote belongs to a distinct staked verifier who has voted, every
  staker is in the verifier list, and the list has at most seven entries.\<close>

definition votes_inv :: "world \<Rightarrow> nat \<Rightarrow> bool" where
  "votes_inv w sid =
     (approvalCount (submissions (vc w) sid) + rejectionCount (submissions (vc w) sid)
        = totalVotes (submissions (vc w) sid) \<and>
      totalVotes (submissions (vc w) sid)
        \<le> card {a \<in> set (submissionVerifiers (vc w) sid).
                  hasVoted (verificationVotes (vc w) sid a)} \<and>
      (\<forall>a. stake (verificationVotes (vc w) sid a) \<noteq> 0
             \<longrightarrow> a \<in> set (submissionVerifiers (vc w) sid)) \<and>
      length (submissionVerifiers (vc w) sid) \<le> MAX_VERIFIERS)"

text \<open>What the counts say about the status: three approvals mean Verified; fewer than
  three approvals and three rejections mean Rejected.\<close>

definition consensus_inv :: "world \<Rightarrow> nat \<Rightarrow> bool" where
  "consensus_inv w sid =
     ((approvalCount (submissions (vc w) sid) \<ge> CONSENSUS_THRESHOLD
         \<longrightarrow> sub_status (submissions (vc w) sid) = VERIFIED) \<and>
      (approvalCount (submissions (vc w) sid) < CONSENSUS_THRESHOLD \<and>
       rejectionCount (submissions (vc w) sid) \<ge> CONSENSUS_THRESHOLD
         \<longrightarrow> sub_status (submissions (vc w) sid) = REJECTED))"

section \<open>A reward distribution as one update of the world\<close>

text \<open>
  \<open>distributeVerificationRewards\<close> sets the distributed flag, has the BountyPool pay the
  worker when the submission is Verified and a pool is wired, and then walks the copied
  verifier list in \<open>_distributeVerifierRewards\<close>. The definitions of this section write
  down, without the loop and without the error cases, the world a call leaves behind when
  it does not revert; the function is compared with them below.

  \<open>transfer\<close> is what a successful \<open>call{value: v}\<close> does to the balances.
\<close>

definition transfer :: "(address \<Rightarrow> nat) \<Rightarrow> address \<Rightarrow> address \<Rightarrow> nat \<Rightarrow> address \<Rightarrow> nat" where
  "transfer b from to v = (b(from := b from - v))(to := (b(from := b from - v)) to + v)"

definition consensusApproved :: "VerificationContract \<Rightarrow> nat \<Rightarrow> bool" where
  "consensusApproved v sid = (sub_status (submissions v sid) = VERIFIED)"


text \<open>The entries of the verifier list that have voted, in list order, and those among
  them whose vote is the consensus. The list has one entry per successful
  \<open>stakeForVerification\<close>, so an address that staked twice before voting is in it twice.\<close>

definition votedVerifiers :: "VerificationContract \<Rightarrow> nat \<Rightarrow> address list" where
  "votedVerifiers v sid =
     filter (\<lambda>a. hasVoted (verificationVotes v sid a)) (submissionVerifiers v sid)"

definition rewardedVerifiers :: "VerificationContract \<Rightarrow> nat \<Rightarrow> address list" where
  "rewardedVerifiers v sid =
     filter (\<lambda>a. approved (verificationVotes v sid a) = consensusApproved v sid)
       (votedVerifiers v sid)"


definition platformFee :: "nat \<Rightarrow> nat" where
  "platformFee amount = amount * PLATFORM_FEE_PERCENTAGE div BASIS_POINTS"






text \<open>A status of Verified or Rejected comes with three votes of one kind.\<close>

definition decided_by_votes :: "world \<Rightarrow> nat \<Rightarrow> bool" where
  "decided_by_votes w sid =
     (sub_status (submissions (vc w) sid) = VERIFIED \<or>
      sub_status (submissions (vc w) sid) = REJECTED
      \<longrightarrow> CONSENSUS_THRESHOLD \<le> approvalCount (submissions (vc w) sid) \<or>
          CONSENSUS_THRESHOLD \<le> rejectionCount (submissions (vc w) sid))"


text \<open>Account 5 stakes twice on submission 0 before it votes; 5, 6 and 7 approve.\<close>

definition double_stake_world :: world where
  "double_stake_world = run submission_world
     [(5, 1100, StakeForVerification VERIFICATION_STAKE 0),
      (5, 1101, StakeForVerification VERIFICATION_STAKE 0),
      (5, 1102, SubmitVerification 0 True ''''),
      (6, 1103, StakeForVerification VERIFICATION_STAKE 0),
      (6, 1104, SubmitVerification 0 True ''''),
      (7, 1105, StakeForVerification VERIFICATION_STAKE 0),
      (7, 1106, SubmitVerification 0 True '''')]"

section \<open>Basic facts\<close>

lemma bindE_Inl [simp]: "bindE (Inl e) f = Inl e"
  by (simp add: bindE_def)

lemma bindE_Inr [simp]: "bindE (Inr v) f = f v"
  by (simp add: bindE_def)

lemma bindE_eq_Inr: "bindE r f = Inr y \<longleftrightarrow> (\<exists>v. r = Inr v \<and> f v = Inr y)"
  by (cases r) simp_all

lemma dropResult_Inl [simp]: "dropResult (Inl e) = Inl e"
  by (simp add: dropResult_def)

lemma dropResult_Inr [simp]: "dropResult (Inr (x, w')) = Inr w'"
  by (simp add: dropResult_def)

lemma commit_Inl [simp]: "commit s (Inl e) = s"
  by (simp add: commit_def)

lemma commit_Inr [simp]: "commit s (Inr s') = s'"
  by (simp add: commit_def)

lemma checked_add_eq_Inr: "checked_add a b = Inr c \<longleftrightarrow> (c = a + b \<and> a + b \<le> MAX_UINT256)"
  by (auto simp: checked_add_def)

lemma checked_sub_eq_Inr: "checked_sub a b = Inr c \<longleftrightarrow> (c = a - b \<and> b \<le> a)"
  by (auto simp: checked_sub_def)

lemma checked_mul_eq_Inr: "checked_mul a b = Inr c \<longleftrightarrow> (c = a * b \<and> a * b \<le> MAX_UINT256)"
  by (auto simp: checked_mul_def)

lemmas rep_consts = INITIAL_REPUTATION_def REPUTATION_INCREASE_def REPUTATION_DECREASE_def
  MAX_REPUTATION_def MIN_REPUTATION_def

lemmas rep_eval = test_world_def new_ReputationContract_def zeroReputationData_def Let_def
  updateWorkerReputation_def updateVerifierReputation_def getReputationScore_def
  getReputationData_def checked_add_def rep_consts MAX_UINT256_def

lemmas bp_consts = PLATFORM_FEE_PERCENTAGE_def EXPIRED_TASK_FEE_PERCENTAGE_def BASIS_POINTS_def

lemmas bp_eval = test_world_def new_BountyPool_def depositBounty_def
  distributeReward_def attach_value_def send_value_def ether_def Let_def checked_add_def
  checked_sub_def checked_mul_def bp_consts MAX_UINT256_def

lemma fee_le: "(amount::nat) * 250 div 10000 \<le> amount"
  by arith

section \<open>C4: BountyPool.distributeReward\<close>

text \<open>
  Claim C4. \<open>distributeReward\<close> fails and changes nothing when the task balance is below
  the amount (with \<open>InsufficientBounty\<close> for the authorised caller); whenever it succeeds
  the fee is \<open>amount * 250 div 10000\<close>, the task balance drops by the full amount, the fee
  pool grows by exactly the fee and the worker receives exactly amount minus fee out of
  the pool's funds, every other account untouched; and it does succeed for the
  VerificationContract when the balance covers the amount, the pool holds the payout and
  the worker accepts the transfer. A result is either a revert without state or the one
  new state with all four effects: there is no partial outcome.
\<close>

theorem distributeReward_atomic_fee_split:
  "(taskBounties (bp w) taskId < amount \<longrightarrow>
      commit w (distributeReward w sender taskId worker amount) = w \<and>
      (\<exists>e. distributeReward w sender taskId worker amount = Inl e) \<and>
      (sender = bp_verificationContractAddress (bp w) \<longrightarrow>
         distributeReward w sender taskId worker amount =
           Inl (BP_InsufficientBounty taskId amount (taskBounties (bp w) taskId)))) \<and>
   (\<forall>w'. distributeReward w sender taskId worker amount = Inr w' \<longrightarrow>
      amount \<le> taskBounties (bp w) taskId \<and>
      taskBounties (bp w') = (taskBounties (bp w))(taskId := taskBounties (bp w) taskId - amount) \<and>
      accumulatedFees (bp w') = accumulatedFees (bp w) + amount * 250 div 10000 \<and>
      (worker \<noteq> bpAddr w \<longrightarrow>
         balances w' worker = balances w worker + (amount - amount * 250 div 10000) \<and>
         balances w' (bpAddr w) = balances w (bpAddr w) - (amount - amount * 250 div 10000)) \<and>
      (\<forall>a. a \<noteq> worker \<and> a \<noteq> bpAddr w \<longrightarrow> balances w' a = balances w a)) \<and>
   (sender = bp_verificationContractAddress (bp w) \<and> amount \<le> taskBounties (bp w) taskId \<and>
    amount * 250 \<le> MAX_UINT256 \<and> accumulatedFees (bp w) + amount * 250 div 10000 \<le> MAX_UINT256 \<and>
    amount - amount * 250 div 10000 \<le> balances w (bpAddr w) \<and> \<not> refusesEther w worker \<longrightarrow>
      (\<exists>w'. distributeReward w sender taskId worker amount = Inr w'))"
proof (intro conjI impI allI)
  assume "taskBounties (bp w) taskId < amount"
  then show "commit w (distributeReward w sender taskId worker amount) = w"
    by (simp add: distributeReward_def)
next
  assume "taskBounties (bp w) taskId < amount"
  then show "\<exists>e. distributeReward w sender taskId worker amount = Inl e"
    by (simp add: distributeReward_def)
next
  assume "taskBounties (bp w) taskId < amount" "sender = bp_verificationContractAddress (bp w)"
  then show "distributeReward w sender taskId worker amount =
           Inl (BP_InsufficientBounty taskId amount (taskBounties (bp w) taskId))"
    by (simp add: distributeReward_def)
next
  fix w' assume r: "distributeReward w sender taskId worker amount = Inr w'"
  then show "amount \<le> taskBounties (bp w) taskId"
    by (auto simp: distributeReward_def split: if_splits)
  from r have w': "w' = (w\<lparr>bp := (bp w)\<lparr>taskBounties := (taskBounties (bp w))(taskId := taskBounties (bp w) taskId - amount),
           accumulatedFees := accumulatedFees (bp w) + amount * 250 div 10000\<rparr>,
         balances := ((balances w)(bpAddr w := balances w (bpAddr w) - (amount - amount * 250 div 10000)))
           (worker := ((balances w)(bpAddr w := balances w (bpAddr w) - (amount - amount * 250 div 10000))) worker
               + (amount - amount * 250 div 10000))\<rparr>)"
    by (auto simp: distributeReward_def Let_def bindE_eq_Inr checked_add_eq_Inr checked_sub_eq_Inr
          checked_mul_eq_Inr send_value_def bp_consts split: if_splits)
  show "taskBounties (bp w') = (taskBounties (bp w))(taskId := taskBounties (bp w) taskId - amount)"
    by (simp add: w')
  show "accumulatedFees (bp w') = accumulatedFees (bp w) + amount * 250 div 10000"
    by (simp add: w')
  { assume "worker \<noteq> bpAddr w"
    then show "balances w' worker = balances w worker + (amount - amount * 250 div 10000)"
      by (simp add: w')
    assume "worker \<noteq> bpAddr w"
    then show "balances w' (bpAddr w) = balances w (bpAddr w) - (amount - amount * 250 div 10000)"
      by (simp add: w') }
  { fix a assume "a \<noteq> worker \<and> a \<noteq> bpAddr w"
    then show "balances w' a = balances w a" by (simp add: w') }
next
  assume "sender = bp_verificationContractAddress (bp w) \<and> amount \<le> taskBounties (bp w) taskId \<and>
    amount * 250 \<le> MAX_UINT256 \<and> accumulatedFees (bp w) + amount * 250 div 10000 \<le> MAX_UINT256 \<and>
    amount - amount * 250 div 10000 \<le> balances w (bpAddr w) \<and> \<not> refusesEther w worker"
  then show "\<exists>w'. distributeReward w sender taskId worker amount = Inr w'"
    using fee_le[of amount]
    by (simp add: distributeReward_def Let_def checked_add_def checked_sub_def
          checked_mul_def send_value_def bp_consts)
qed

lemma funded_world_facts:
  "bp_verificationContractAddress (bp funded_world) = 103"
  "taskBounties (bp funded_world) 0 = 10 ^ 18"
  "accumulatedFees (bp funded_world) = 0"
  "balances funded_world 102 = 10 ^ 18"
  "balances funded_world 3 = 10 ^ 19"
  "bpAddr funded_world = 102"
  "\<not> refusesEther funded_world 3"
  by (simp_all add: funded_world_def bp_eval)

theorem distributeReward_atomic_fee_split_witness:
  "(\<exists>w'. distributeReward funded_world 103 0 3 (10 ^ 18) = Inr w' \<and>
      taskBounties (bp w') 0 = 0 \<and> accumulatedFees (bp w') = 25 * 10 ^ 15 \<and>
      balances w' 3 = 10975 * 10 ^ 15 \<and> balances w' 102 = 25 * 10 ^ 15) \<and>
   distributeReward funded_world 103 0 3 (2 * 10 ^ 18) =
     Inl (BP_InsufficientBounty 0 (2 * 10 ^ 18) (10 ^ 18))"
proof -
  note T = distributeReward_atomic_fee_split [of funded_world 0 "10 ^ 18" 103 3]
  note U = distributeReward_atomic_fee_split [of funded_world 0 "2 * 10 ^ 18" 103 3]
  have pre: "103 = bp_verificationContractAddress (bp funded_world) \<and>
    10 ^ 18 \<le> taskBounties (bp funded_world) 0 \<and> (10 ^ 18) * 250 \<le> MAX_UINT256 \<and>
    accumulatedFees (bp funded_world) + (10 ^ 18) * 250 div 10000 \<le> MAX_UINT256 \<and>
    10 ^ 18 - (10 ^ 18) * 250 div 10000 \<le> balances funded_world (bpAddr funded_world) \<and>
    \<not> refusesEther funded_world 3"
    by (simp add: funded_world_facts MAX_UINT256_def)
  from T pre obtain w' where r: "distributeReward funded_world 103 0 3 (10 ^ 18) = Inr w'"
    by blast
  from T r have tb: "taskBounties (bp w') =
      (taskBounties (bp funded_world))(0 := taskBounties (bp funded_world) 0 - 10 ^ 18)"
    and fees: "accumulatedFees (bp w') = accumulatedFees (bp funded_world) + (10 ^ 18) * 250 div 10000"
    and bal: "3 \<noteq> bpAddr funded_world \<longrightarrow>
         balances w' 3 = balances funded_world 3 + (10 ^ 18 - (10 ^ 18) * 250 div 10000) \<and>
         balances w' (bpAddr funded_world) =
           balances funded_world (bpAddr funded_world) - (10 ^ 18 - (10 ^ 18) * 250 div 10000)"
    by blast+
  have c1: "taskBounties (bp w') 0 = 0" by (simp add: tb funded_world_facts)
  have c2: "accumulatedFees (bp w') = 25 * 10 ^ 15" by (simp add: fees funded_world_facts)
  from bal have c3: "balances w' 3 = 10975 * 10 ^ 15 \<and> balances w' 102 = 25 * 10 ^ 15"
    by (simp add: funded_world_facts)
  from U have c4: "distributeReward funded_world 103 0 3 (2 * 10 ^ 18) =
     Inl (BP_InsufficientBounty 0 (2 * 10 ^ 18) (10 ^ 18))"
    by (simp add: funded_world_facts)
  from r c1 c2 c3 c4 show ?thesis by blast
qed

section \<open>C7: a content hash has one owner\<close>

lemmas af_consts = MAX_SUBMISSIONS_PER_DAY_def ONE_DAY_def

lemma checkRateLimit_index:
  "checkRateLimit a now w = Inr a' \<Longrightarrow>
     usedImageHashes a' = usedImageHashes a \<and> imageHashToWorker a' = imageHashToWorker a \<and>
     blacklistedWorkers a' = blacklistedWorkers a"
  by (auto simp: checkRateLimit_def Let_def bindE_eq_Inr split: if_splits)

lemma checkAndRecordSubmission_claims:
  "checkAndRecordSubmission a s now w t h m = Inr a' \<Longrightarrow> \<not> usedImageHashes a h \<and> claimed_by a' h w"
  by (auto simp: checkAndRecordSubmission_def checkDuplicateImage_def recordSubmission_def
        claimed_by_def bindE_eq_Inr dest!: checkRateLimit_index split: if_splits)

lemma checkAndRecordSubmission_keeps:
  "claimed_by a h w \<Longrightarrow> checkAndRecordSubmission a s now w' t h' m = Inr a' \<Longrightarrow> claimed_by a' h w"
  by (auto simp: checkAndRecordSubmission_def checkDuplicateImage_def recordSubmission_def
        claimed_by_def bindE_eq_Inr dest!: checkRateLimit_index split: if_splits)

lemma claimed_by_frame [simp]:
  "claimed_by (a\<lparr>workerStakes := x1\<rparr>) h w = claimed_by a h w"
  "claimed_by (a\<lparr>blacklistedWorkers := x2\<rparr>) h w = claimed_by a h w"
  "claimed_by (a\<lparr>af_verificationContractAddress := x3\<rparr>) h w = claimed_by a h w"
  "claimed_by (a\<lparr>af_taskManagerAddress := x3\<rparr>) h w = claimed_by a h w"
  by (simp_all add: claimed_by_def)

lemma af_call_keeps: "claimed_by a h w \<Longrightarrow> claimed_by (commit a (af_call a c)) h w"
proof (cases "af_call a c")
  case (Inl e)
  assume "claimed_by a h w" with Inl show ?thesis by simp
next
  case (Inr a')
  assume cl: "claimed_by a h w"
  obtain s now op where c: "c = (s, now, op)" by (cases c)
  from Inr c cl have "claimed_by a' h w"
    by (cases op)
       (auto dest: checkAndRecordSubmission_keeps
             simp: forfeitStake_def blacklistWorker_def unblacklistWorker_def
               af_setVerificationContract_def af_setTaskManager_def
             split: if_splits)
  with Inr show ?thesis by simp
qed

lemma af_run_keeps: "claimed_by a h w \<Longrightarrow> claimed_by (af_run a cs) h w"
  by (induction cs arbitrary: a) (auto simp: af_call_keeps)

lemma duplicate_rejected:
  assumes "claimed_by a h w"
  shows "\<exists>e. checkAndRecordSubmission a s now w' t h m = Inl e"
proof (cases "checkAndRecordSubmission a s now w' t h m")
  case (Inl e) then show ?thesis by blast
next
  case (Inr a')
  from checkAndRecordSubmission_claims[OF Inr] assms show ?thesis by (simp add: claimed_by_def)
qed

lemma duplicate_names_owner:
  assumes "claimed_by a h w"
    and "s = af_verificationContractAddress a \<or> s = af_taskManagerAddress a"
    and "\<not> blacklistedWorkers a w'"
    and "date (workerDailySubmissions a w') = getCurrentDay now \<longrightarrow>
           count (workerDailySubmissions a w') < MAX_SUBMISSIONS_PER_DAY"
  shows "checkAndRecordSubmission a s now w' t h m = Inl (DuplicateImageDetected h w)"
  using assms
  by (auto simp: checkAndRecordSubmission_def checkRateLimit_def checkDuplicateImage_def
        claimed_by_def Let_def checked_add_def MAX_UINT256_def af_consts)

lemma first_accepted:
  assumes "s = af_verificationContractAddress a \<or> s = af_taskManagerAddress a"
    and "\<not> blacklistedWorkers a w"
    and "date (workerDailySubmissions a w) = getCurrentDay now \<longrightarrow>
           count (workerDailySubmissions a w) < MAX_SUBMISSIONS_PER_DAY"
    and "\<not> usedImageHashes a h" and "m \<noteq> 0"
  shows "\<exists>a'. checkAndRecordSubmission a s now w t h m = Inr a'"
  using assms
  by (auto simp: checkAndRecordSubmission_def checkRateLimit_def checkDuplicateImage_def
        validateMetadata_def Let_def checked_add_def MAX_UINT256_def af_consts)

text \<open>
  Claim C7. Of two submissions with the same content hash the admission check accepts the
  first (when it passes the caller, blacklist, rate-limit and metadata gates) and rejects
  the second, whatever calls were made to the contract in between; the rejection is
  \<open>DuplicateImageDetected\<close> naming the first submitter whenever the second submission
  gets past the caller, blacklist and rate-limit gates that run before the duplicate
  check; and the index entry of the hash stays with the first submitter for ever.
\<close>

theorem duplicate_hash_single_owner:
  "((s1 = af_verificationContractAddress a \<or> s1 = af_taskManagerAddress a) \<and>
    \<not> blacklistedWorkers a w1 \<and>
    (date (workerDailySubmissions a w1) = getCurrentDay now1 \<longrightarrow>
       count (workerDailySubmissions a w1) < MAX_SUBMISSIONS_PER_DAY) \<and>
    \<not> usedImageHashes a h \<and> m1 \<noteq> 0 \<longrightarrow>
      (\<exists>a1. checkAndRecordSubmission a s1 now1 w1 t1 h m1 = Inr a1)) \<and>
   (\<forall>a1. checkAndRecordSubmission a s1 now1 w1 t1 h m1 = Inr a1 \<longrightarrow>
      (\<forall>cs s2 now2 w2 t2 m2.
         usedImageHashes (af_run a1 cs) h \<and> imageHashToWorker (af_run a1 cs) h = w1 \<and>
         (\<exists>e. checkAndRecordSubmission (af_run a1 cs) s2 now2 w2 t2 h m2 = Inl e) \<and>
         commit (af_run a1 cs) (checkAndRecordSubmission (af_run a1 cs) s2 now2 w2 t2 h m2)
           = af_run a1 cs \<and>
         ((s2 = af_verificationContractAddress (af_run a1 cs) \<or>
           s2 = af_taskManagerAddress (af_run a1 cs)) \<and>
          \<not> blacklistedWorkers (af_run a1 cs) w2 \<and>
          (date (workerDailySubmissions (af_run a1 cs) w2) = getCurrentDay now2 \<longrightarrow>
             count (workerDailySubmissions (af_run a1 cs) w2) < MAX_SUBMISSIONS_PER_DAY) \<longrightarrow>
            checkAndRecordSubmission (af_run a1 cs) s2 now2 w2 t2 h m2
              = Inl (DuplicateImageDetected h w1))))"
proof (intro conjI impI allI)
  assume "(s1 = af_verificationContractAddress a \<or> s1 = af_taskManagerAddress a) \<and>
    \<not> blacklistedWorkers a w1 \<and>
    (date (workerDailySubmissions a w1) = getCurrentDay now1 \<longrightarrow>
       count (workerDailySubmissions a w1) < MAX_SUBMISSIONS_PER_DAY) \<and>
    \<not> usedImageHashes a h \<and> m1 \<noteq> 0"
  then show "\<exists>a1. checkAndRecordSubmission a s1 now1 w1 t1 h m1 = Inr a1"
    by (intro first_accepted) simp_all
next
  fix a1 cs s2 now2 w2 t2 m2
  assume r: "checkAndRecordSubmission a s1 now1 w1 t1 h m1 = Inr a1"
  have cl: "claimed_by (af_run a1 cs) h w1"
    using checkAndRecordSubmission_claims[OF r] by (simp add: af_run_keeps)
  from cl show "usedImageHashes (af_run a1 cs) h" by (simp add: claimed_by_def)
  from cl show "imageHashToWorker (af_run a1 cs) h = w1" by (simp add: claimed_by_def)
  from duplicate_rejected[OF cl]
  show e: "\<exists>e. checkAndRecordSubmission (af_run a1 cs) s2 now2 w2 t2 h m2 = Inl e" .
  from e show "commit (af_run a1 cs) (checkAndRecordSubmission (af_run a1 cs) s2 now2 w2 t2 h m2)
           = af_run a1 cs" by auto
  assume "(s2 = af_verificationContractAddress (af_run a1 cs) \<or>
           s2 = af_taskManagerAddress (af_run a1 cs)) \<and>
          \<not> blacklistedWorkers (af_run a1 cs) w2 \<and>
          (date (workerDailySubmissions (af_run a1 cs) w2) = getCurrentDay now2 \<longrightarrow>
             count (workerDailySubmissions (af_run a1 cs) w2) < MAX_SUBMISSIONS_PER_DAY)"
  then show "checkAndRecordSubmission (af_run a1 cs) s2 now2 w2 t2 h m2
              = Inl (DuplicateImageDetected h w1)"
    by (intro duplicate_names_owner[OF cl]) simp_all
qed

lemmas af_eval = new_AntiFraud_def
  af_setTaskManager_def checkAndRecordSubmission_def checkRateLimit_def checkDuplicateImage_def
  validateMetadata_def recordSubmission_def blacklistWorker_def unblacklistWorker_def
  getCurrentDay_def Let_def checked_add_def MAX_UINT256_def af_consts

lemma first_af_accepted:
  "checkAndRecordSubmission wired_af 101 1000 3 0 ''QmTestHash123'' 7 = Inr first_af"
  by (simp add: first_af_def wired_af_def af_eval)

lemma later_state_facts:
  "af_taskManagerAddress (af_run first_af later_calls) = 101"
  "\<not> blacklistedWorkers (af_run first_af later_calls) 4"
  "count (workerDailySubmissions (af_run first_af later_calls) 4) = 1"
  by (simp_all add: first_af_def wired_af_def later_calls_def af_eval)

theorem duplicate_hash_single_owner_witness:
  "checkAndRecordSubmission wired_af 101 1000 3 0 ''QmTestHash123'' 7 = Inr first_af \<and>
   imageHashToWorker (af_run first_af later_calls) ''QmTestHash123'' = 3 \<and>
   checkAndRecordSubmission (af_run first_af later_calls) 101 3000 4 1 ''QmTestHash123'' 8
     = Inl (DuplicateImageDetected ''QmTestHash123'' 3)"
proof -
  note T = duplicate_hash_single_owner
    [of 101 wired_af 3 1000 "''QmTestHash123''" 7 0, THEN conjunct2, rule_format,
     OF first_af_accepted, of later_calls 101 3000 4 1 8]
  have pre: "(101 = af_verificationContractAddress (af_run first_af later_calls) \<or>
           101 = af_taskManagerAddress (af_run first_af later_calls)) \<and>
          \<not> blacklistedWorkers (af_run first_af later_calls) 4 \<and>
          (date (workerDailySubmissions (af_run first_af later_calls) 4) = getCurrentDay 3000 \<longrightarrow>
             count (workerDailySubmissions (af_run first_af later_calls) 4)
               < MAX_SUBMISSIONS_PER_DAY)"
    by (simp add: later_state_facts af_consts)
  from T pre first_af_accepted show ?thesis by blast
qed

section \<open>ReputationContract: the score stays within 0 and 100\<close>

lemma initializeReputation_bounded:
  "rep_bounded r \<Longrightarrow> initializeReputation r u = Inr r' \<Longrightarrow> rep_bounded r'"
  by (auto simp: initializeReputation_def rep_bounded_def Let_def rep_consts split: if_splits)

lemma updateWorkerReputation_bounded:
  "rep_bounded r \<Longrightarrow> updateWorkerReputation r s u b = Inr r' \<Longrightarrow> rep_bounded r'"
  unfolding updateWorkerReputation_def rep_bounded_def Let_def rep_consts
  by (auto simp: bindE_eq_Inr checked_add_eq_Inr split: if_splits
        intro!: order_trans[OF diff_le_self])

lemma updateVerifierReputation_bounded:
  "rep_bounded r \<Longrightarrow> updateVerifierReputation r s u b = Inr r' \<Longrightarrow> rep_bounded r'"
  unfolding updateVerifierReputation_def rep_bounded_def Let_def rep_consts
  by (auto simp: bindE_eq_Inr checked_add_eq_Inr split: if_splits
        intro!: order_trans[OF diff_le_self])

lemma updateWorkerReputationWithCategory_bounded:
  "rep_bounded r \<Longrightarrow> updateWorkerReputationWithCategory r s u c b = Inr r' \<Longrightarrow> rep_bounded r'"
  unfolding updateWorkerReputationWithCategory_def rep_bounded_def Let_def rep_consts
  by (auto simp: bindE_eq_Inr checked_add_eq_Inr split: if_splits
        intro!: order_trans[OF diff_le_self])

lemma rep_call_bounded: "rep_bounded r \<Longrightarrow> rep_bounded (commit r (rep_call r c))"
proof (cases "rep_call r c")
  case (Inl e)
  assume "rep_bounded r" with Inl show ?thesis by simp
next
  case (Inr r')
  assume b: "rep_bounded r"
  obtain s op where c: "c = (s, op)" by (cases c)
  from Inr c b have "rep_bounded r'"
    by (cases op)
       (auto dest: initializeReputation_bounded updateWorkerReputation_bounded
          updateVerifierReputation_bounded updateWorkerReputationWithCategory_bounded)
  with Inr show ?thesis by simp
qed

lemma rep_run_bounded: "rep_bounded r \<Longrightarrow> rep_bounded (rep_run r cs)"
  by (induction cs arbitrary: r) (auto simp: rep_call_bounded)

lemma new_ReputationContract_bounded: "rep_bounded (new_ReputationContract d)"
  by (simp add: rep_bounded_def new_ReputationContract_def zeroReputationData_def)

lemma getReputationScore_range: "rep_bounded r \<Longrightarrow> getReputationScore r u \<le> 100"
  by (auto simp: rep_bounded_def getReputationScore_def Let_def rep_consts)

section \<open>C8: N consecutive failures and the floor at 0\<close>

text \<open>Consecutive outcomes of one kind, from a record that has no history of that kind:
  the stored score after \<open>n > 0\<close> of them is \<open>min 100 (50 + 5 n)\<close> for successes and
  \<open>50 - 5 n\<close>, floored at 0, for failures.\<close>

lemma rep_run_append: "rep_run r (xs @ ys) = rep_run (rep_run r xs) ys"
  by (induction xs arbitrary: r) simp_all

lemma replicate_Suc_snoc: "replicate (Suc n) x = replicate n x @ [x]"
  by (simp add: replicate_append_same)

lemma rep_run_replicate_Suc:
  "rep_run r (replicate (Suc n) c) =
     commit (rep_run r (replicate n c)) (rep_call (rep_run r (replicate n c)) c)"
  by (simp only: replicate_Suc_snoc rep_run_append rep_run.simps)

lemma worker_failure_step:
  assumes "tasksRejected (reputations r u) < MAX_UINT256"
  shows "rc_verificationContractAddress
           (commit r (updateWorkerReputation r (rc_verificationContractAddress r) u False))
           = rc_verificationContractAddress r"
    and "tasksCompleted (reputations
           (commit r (updateWorkerReputation r (rc_verificationContractAddress r) u False)) u)
           = tasksCompleted (reputations r u)"
    and "tasksRejected (reputations
           (commit r (updateWorkerReputation r (rc_verificationContractAddress r) u False)) u)
           = Suc (tasksRejected (reputations r u))"
    and "score (reputations
           (commit r (updateWorkerReputation r (rc_verificationContractAddress r) u False)) u)
           = (if score (reputations r u) = 0 \<and> tasksCompleted (reputations r u) = 0 \<and>
                 tasksRejected (reputations r u) = 0 then 45 else score (reputations r u) - 5)"
  using assms
  by (simp_all add: updateWorkerReputation_def Let_def checked_add_def rep_consts)

lemma worker_success_step:
  assumes "tasksCompleted (reputations r u) < MAX_UINT256" "score (reputations r u) \<le> 100"
  shows "rc_verificationContractAddress
           (commit r (updateWorkerReputation r (rc_verificationContractAddress r) u True))
           = rc_verificationContractAddress r"
    and "tasksRejected (reputations
           (commit r (updateWorkerReputation r (rc_verificationContractAddress r) u True)) u)
           = tasksRejected (reputations r u)"
    and "tasksCompleted (reputations
           (commit r (updateWorkerReputation r (rc_verificationContractAddress r) u True)) u)
           = Suc (tasksCompleted (reputations r u))"
    and "score (reputations
           (commit r (updateWorkerReputation r (rc_verificationContractAddress r) u True)) u)
           = (if score (reputations r u) = 0 \<and> tasksCompleted (reputations r u) = 0 \<and>
                 tasksRejected (reputations r u) = 0 then 55
              else min 100 (score (reputations r u) + 5))"
  using assms
  by (simp_all add: updateWorkerReputation_def Let_def checked_add_def rep_consts MAX_UINT256_def)

lemma n_worker_failures:
  assumes "score (reputations r u) = 0" "tasksCompleted (reputations r u) = 0"
    "tasksRejected (reputations r u) = 0" "n \<le> MAX_UINT256"
  shows "rc_verificationContractAddress
           (rep_run r (replicate n (rc_verificationContractAddress r, UpdateWorkerReputation u False)))
           = rc_verificationContractAddress r \<and>
         tasksCompleted (reputations
           (rep_run r (replicate n (rc_verificationContractAddress r, UpdateWorkerReputation u False))) u) = 0 \<and>
         tasksRejected (reputations
           (rep_run r (replicate n (rc_verificationContractAddress r, UpdateWorkerReputation u False))) u) = n \<and>
         score (reputations
           (rep_run r (replicate n (rc_verificationContractAddress r, UpdateWorkerReputation u False))) u)
           = (if n = 0 then 0 else 50 - 5 * n)"
  using assms(4)
proof (induction n)
  case 0
  with assms show ?case by simp
next
  case (Suc n)
  let ?v = "rc_verificationContractAddress r"
  define r' where "r' = rep_run r (replicate n (?v, UpdateWorkerReputation u False))"
  from Suc have ih: "rc_verificationContractAddress r' = ?v" "tasksCompleted (reputations r' u) = 0"
    "tasksRejected (reputations r' u) = n" "score (reputations r' u) = (if n = 0 then 0 else 50 - 5 * n)"
    and n: "n < MAX_UINT256"
    by (simp_all add: r'_def)
  have run: "rep_run r (replicate (Suc n) (?v, UpdateWorkerReputation u False))
      = commit r' (updateWorkerReputation r' ?v u False)"
    by (simp only: rep_run_replicate_Suc rep_call.simps r'_def[symmetric])
  from n ih(3) have lt: "tasksRejected (reputations r' u) < MAX_UINT256" by simp
  note st = worker_failure_step[OF lt, unfolded ih(1)]
  show ?case
    unfolding run st ih by (cases "n = 0") simp_all
qed

lemma n_worker_successes:
  assumes "score (reputations r u) = 0" "tasksCompleted (reputations r u) = 0"
    "tasksRejected (reputations r u) = 0" "n \<le> MAX_UINT256"
  shows "rc_verificationContractAddress
           (rep_run r (replicate n (rc_verificationContractAddress r, UpdateWorkerReputation u True)))
           = rc_verificationContractAddress r \<and>
         tasksRejected (reputations
           (rep_run r (replicate n (rc_verificationContractAddress r, UpdateWorkerReputation u True))) u) = 0 \<and>
         tasksCompleted (reputations
           (rep_run r (replicate n (rc_verificationContractAddress r, UpdateWorkerReputation u True))) u) = n \<and>
         score (reputations
           (rep_run r (replicate n (rc_verificationContractAddress r, UpdateWorkerReputation u True))) u)
           = (if n = 0 then 0 else min 100 (50 + 5 * n))"
  using assms(4)
proof (induction n)
  case 0
  with assms show ?case by simp
next
  case (Suc n)
  let ?v = "rc_verificationContractAddress r"
  define r' where "r' = rep_run r (replicate n (?v, UpdateWorkerReputation u True))"
  from Suc have ih: "rc_verificationContractAddress r' = ?v" "tasksRejected (reputations r' u) = 0"
    "tasksCompleted (reputations r' u) = n"
    "score (reputations r' u) = (if n = 0 then 0 else min 100 (50 + 5 * n))"
    and n: "n < MAX_UINT256"
    by (simp_all add: r'_def)
  have run: "rep_run r (replicate (Suc n) (?v, UpdateWorkerReputation u True))
      = commit r' (updateWorkerReputation r' ?v u True)"
    by (simp only: rep_run_replicate_Suc rep_call.simps r'_def[symmetric])
  from n ih(3) have lt: "tasksCompleted (reputations r' u) < MAX_UINT256" by simp
  from ih(4) have le: "score (reputations r' u) \<le> 100" by simp
  note st = worker_success_step[OF lt le, unfolded ih(1)]
  show ?case
    unfolding run st ih by (cases "n = 0") simp_all
qed


lemma verifier_failure_step:
  assumes "verificationsPerformed (reputations r u) < MAX_UINT256"
  shows "rc_verificationContractAddress
           (commit r (updateVerifierReputation r (rc_verificationContractAddress r) u False))
           = rc_verificationContractAddress r"
    and "verificationsPerformed (reputations
           (commit r (updateVerifierReputation r (rc_verificationContractAddress r) u False)) u)
           = Suc (verificationsPerformed (reputations r u))"
    and "score (reputations
           (commit r (updateVerifierReputation r (rc_verificationContractAddress r) u False)) u)
           = (if score (reputations r u) = 0 \<and> verificationsPerformed (reputations r u) = 0
              then 45 else score (reputations r u) - 5)"
  using assms
  by (simp_all add: updateVerifierReputation_def Let_def checked_add_def rep_consts)

lemma verifier_success_step:
  assumes "verificationsPerformed (reputations r u) < MAX_UINT256"
    "accurateVerifications (reputations r u) < MAX_UINT256" "score (reputations r u) \<le> 100"
  shows "rc_verificationContractAddress
           (commit r (updateVerifierReputation r (rc_verificationContractAddress r) u True))
           = rc_verificationContractAddress r"
    and "verificationsPerformed (reputations
           (commit r (updateVerifierReputation r (rc_verificationContractAddress r) u True)) u)
           = Suc (verificationsPerformed (reputations r u))"
    and "accurateVerifications (reputations
           (commit r (updateVerifierReputation r (rc_verificationContractAddress r) u True)) u)
           = Suc (accurateVerifications (reputations r u))"
    and "score (reputations
           (commit r (updateVerifierReputation r (rc_verificationContractAddress r) u True)) u)
           = (if score (reputations r u) = 0 \<and> verificationsPerformed (reputations r u) = 0
              then 55 else min 100 (score (reputations r u) + 5))"
  using assms
  by (simp_all add: updateVerifierReputation_def Let_def checked_add_def rep_consts MAX_UINT256_def)

lemma n_verifier_failures:
  assumes "score (reputations r u) = 0" "verificationsPerformed (reputations r u) = 0"
    "n \<le> MAX_UINT256"
  shows "rc_verificationContractAddress
           (rep_run r (replicate n (rc_verificationContractAddress r, UpdateVerifierReputation u False)))
           = rc_verificationContractAddress r \<and>
         verificationsPerformed (reputations
           (rep_run r (replicate n (rc_verificationContractAddress r, UpdateVerifierReputation u False))) u) = n \<and>
         score (reputations
           (rep_run r (replicate n (rc_verificationContractAddress r, UpdateVerifierReputation u False))) u)
           = (if n = 0 then 0 else 50 - 5 * n)"
  using assms(3)
proof (induction n)
  case 0
  with assms show ?case by simp
next
  case (Suc n)
  let ?v = "rc_verificationContractAddress r"
  define r' where "r' = rep_run r (replicate n (?v, UpdateVerifierReputation u False))"
  from Suc have ih: "rc_verificationContractAddress r' = ?v"
    "verificationsPerformed (reputations r' u) = n"
    "score (reputations r' u) = (if n = 0 then 0 else 50 - 5 * n)"
    and n: "n < MAX_UINT256"
    by (simp_all add: r'_def)
  have run: "rep_run r (replicate (Suc n) (?v, UpdateVerifierReputation u False))
      = commit r' (updateVerifierReputation r' ?v u False)"
    by (simp only: rep_run_replicate_Suc rep_call.simps r'_def[symmetric])
  from n ih(2) have lt: "verificationsPerformed (reputations r' u) < MAX_UINT256" by simp
  note st = verifier_failure_step[OF lt, unfolded ih(1)]
  show ?case
    unfolding run st ih by (cases "n = 0") simp_all
qed

lemma n_verifier_successes:
  assumes "score (reputations r u) = 0" "verificationsPerformed (reputations r u) = 0"
    "accurateVerifications (reputations r u) = 0" "n \<le> MAX_UINT256"
  shows "rc_verificationContractAddress
           (rep_run r (replicate n (rc_verificationContractAddress r, UpdateVerifierReputation u True)))
           = rc_verificationContractAddress r \<and>
         verificationsPerformed (reputations
           (rep_run r (replicate n (rc_verificationContractAddress r, UpdateVerifierReputation u True))) u) = n \<and>
         accurateVerifications (reputations
           (rep_run r (replicate n (rc_verificationContractAddress r, UpdateVerifierReputation u True))) u) = n \<and>
         score (reputations
           (rep_run r (replicate n (rc_verificationContractAddress r, UpdateVerifierReputation u True))) u)
           = (if n = 0 then 0 else min 100 (50 + 5 * n))"
  using assms(4)
proof (induction n)
  case 0
  with assms show ?case by simp
next
  case (Suc n)
  let ?v = "rc_verificationContractAddress r"
  define r' where "r' = rep_run r (replicate n (?v, UpdateVerifierReputation u True))"
  from Suc have ih: "rc_verificationContractAddress r' = ?v"
    "verificationsPerformed (reputations r' u) = n"
    "accurateVerifications (reputations r' u) = n"
    "score (reputations r' u) = (if n = 0 then 0 else min 100 (50 + 5 * n))"
    and n: "n < MAX_UINT256"
    by (simp_all add: r'_def)
  have run: "rep_run r (replicate (Suc n) (?v, UpdateVerifierReputation u True))
      = commit r' (updateVerifierReputation r' ?v u True)"
    by (simp only: rep_run_replicate_Suc rep_call.simps r'_def[symmetric])
  from n ih(2) have lt: "verificationsPerformed (reputations r' u) < MAX_UINT256" by simp
  from n ih(3) have lt2: "accurateVerifications (reputations r' u) < MAX_UINT256" by simp
  from ih(4) have le: "score (reputations r' u) \<le> 100" by simp
  note st = verifier_success_step[OF lt lt2 le, unfolded ih(1)]
  show ?case
    unfolding run st ih by (cases "n = 0") simp_all
qed


text \<open>
  Claim C8. The score of an identity stays in [0,100], and from the default of 50, N
  consecutive failed outcomes leave it at max(0, 50 - 5N). The range part holds
  (\<open>rep_run_bounded\<close>, \<open>getReputationScore_range\<close>), and so does the formula for
  outcomes of one kind (\<open>n_worker_failures\<close>, \<open>n_worker_successes\<close>,
  \<open>n_verifier_failures\<close>, \<open>n_verifier_successes\<close>). It fails when the failures are
  of both kinds: worker 3
  has ten tasks rejected and stands at 0; the eleventh failed outcome is an inaccurate
  verification vote, \<open>updateVerifierReputation\<close> sees score 0 with no verification
  performed yet, takes the record for an uninitialised one, resets it to 50 and subtracts
  5. After eleven consecutive failures the score is 45, where the claim says 0.
\<close>

theorem reputation_reset_after_floor:
  "getReputationScore (rep_run (rc test_world) ten_failures) 3 = 0 \<and>
   getReputationScore
     (rep_run (rc test_world) (ten_failures @ [(103, UpdateVerifierReputation 3 False)])) 3 = 45 \<and>
   length (ten_failures @ [(103, UpdateVerifierReputation 3 False)]) = 11"
  by (simp add: ten_failures_def rep_eval)

section \<open>C10: the two score queries at a stored score of 0\<close>

text \<open>
  Claim C10. For a user whose stored score is 0 while an activity counter is nonzero,
  \<open>getReputationScore\<close> returns 0 and \<open>getReputationData\<close> reports the score as 50.
\<close>

theorem getReputation_queries_disagree_at_zero:
  assumes "score (reputations r u) = 0"
    and "tasksCompleted (reputations r u) \<noteq> 0 \<or> tasksRejected (reputations r u) \<noteq> 0
         \<or> verificationsPerformed (reputations r u) \<noteq> 0"
  shows "getReputationScore r u = 0 \<and> fst (getReputationData r u) = 50"
  using assms by (auto simp: getReputationScore_def getReputationData_def Let_def rep_consts)

theorem getReputation_queries_disagree_at_zero_witness:
  "score (reputations (rep_run (rc test_world) ten_failures) 3) = 0 \<and>
   tasksRejected (reputations (rep_run (rc test_world) ten_failures) 3) = 10 \<and>
   getReputationScore (rep_run (rc test_world) ten_failures) 3 = 0 \<and>
   fst (getReputationData (rep_run (rc test_world) ten_failures) 3) = 50"
  using getReputation_queries_disagree_at_zero [of "rep_run (rc test_world) ten_failures" 3]
  by (simp add: ten_failures_def rep_eval)

section \<open>TaskManager\<close>

lemmas tm_consts = MINIMUM_BOUNTY_def MAX_ACTIVE_TASKS_PER_WORKER_def TASK_COMPLETION_TIMEOUT_def

lemmas tm_eval = test_world_def new_TaskManager_def new_BountyPool_def new_ReputationContract_def
  zeroTask_def zeroLocation_def zeroReputationData_def
  demo_location_def demo_requirements_def createTask_def claimTask_def expireTask_def
  submitTaskCompletion_def depositBounty_def attach_value_def ether_def Let_def
  checked_add_def MAX_UINT256_def tm_consts

lemma createTask_rejects:
  "b < MINIMUM_BOUNTY \<or> dl \<le> now \<Longrightarrow> \<exists>e. createTask w s v now d c b mw l dl rq = Inl e"
  by (auto simp: createTask_def attach_value_def bindE_def split: sum.splits)

lemma createTask_Active:
  "createTask w s v now d c b mw l dl rq = Inr (i, w') \<Longrightarrow>
     task_status (tasks (tm w') i) = ACTIVE \<and> bountyAmount (tasks (tm w') i) = b \<and>
     MINIMUM_BOUNTY \<le> b \<and> now < dl"
  by (auto simp: createTask_def attach_value_def Let_def bindE_eq_Inr split: if_splits)

lemma createTask_frame:
  "createTask w s v now d c b mw l dl rq = Inr (i, w') \<Longrightarrow>
     bp w' = bp w \<and> rc w' = rc w \<and> vc w' = vc w \<and> af w' = af w \<and> bpAddr w' = bpAddr w \<and>
     tmAddr w' = tmAddr w \<and>
     (\<forall>a. a \<noteq> s \<and> a \<noteq> tmAddr w \<longrightarrow> balances w' a = balances w a)"
  by (auto simp: createTask_def attach_value_def Let_def bindE_eq_Inr split: if_splits)

lemma expireTask_True_iff:
  "(\<exists>w'. expireTask w s now taskId = Inr (True, w')) \<longleftrightarrow>
     task_id (tasks (tm w) taskId) = taskId \<and> deadline (tasks (tm w) taskId) < now \<and>
     task_status (tasks (tm w) taskId) \<noteq> EXPIRED \<and>
     task_status (tasks (tm w) taskId) \<noteq> COMPLETED"
  by (auto simp: expireTask_def Let_def)

lemma expireTask_frame:
  "expireTask w s now taskId = Inr (b, w') \<Longrightarrow>
     balances w' = balances w \<and> bp w' = bp w \<and> rc w' = rc w \<and> vc w' = vc w \<and> af w' = af w \<and>
     (b \<longrightarrow> task_status (tasks (tm w') taskId) = EXPIRED)"
  by (auto simp: expireTask_def Let_def split: if_splits)

lemma expired_claim_cannot_submit:
  "claimedAt (taskClaims (tm w) taskId s) + TASK_COMPLETION_TIMEOUT < now \<Longrightarrow>
     \<exists>e. submitTaskCompletion w s now taskId h l = Inl e"
  by (auto simp: submitTaskCompletion_def Let_def checked_add_def)

lemma claimTask_frame:
  "claimTask w s now taskId = Inr (b, w') \<Longrightarrow>
     rc w' = rc w \<and> bp w' = bp w \<and> balances w' = balances w \<and>
     workerActiveTasks (tm w') s = workerActiveTasks (tm w) s @ [taskId] \<and>
     (\<forall>u. u \<noteq> s \<longrightarrow> workerActiveTasks (tm w') u = workerActiveTasks (tm w) u)"
  by (auto simp: claimTask_def Let_def split: if_splits)

section \<open>C1: createTask and the attached funds\<close>

text \<open>
  Claim C1. \<open>createTask\<close> rejects when the attached funds are below the minimum bounty and
  forwards the attached funds to the escrow balance of the new task. The deadline check,
  the check of the declared bounty and the Active status hold (\<open>createTask_rejects\<close>,
  \<open>createTask_Active\<close>). The rest does not: the function compares the argument
  \<open>bountyAmount\<close>, not \<open>msg.value\<close>, and never calls the BountyPool
  (\<open>createTask_frame\<close>: the pool is unchanged by every successful call). In the test
  deployment, account 2 declares the minimum bounty and attaches nothing: the task is
  created, Active, with no escrow behind it. When it attaches 1 ether, the ether stays on
  the TaskManager's own account and the escrow balance of task 0 is still 0.
\<close>

theorem createTask_ignores_attached_funds:
  "(\<exists>w'. createTask test_world 2 0 1000 ''Test task'' PHOTO_VERIFICATION MINIMUM_BOUNTY 5
            demo_location 2000 demo_requirements = Inr (0, w') \<and>
         task_status (tasks (tm w') 0) = ACTIVE \<and> taskBounties (bp w') 0 = 0) \<and>
   (\<exists>w'. createTask test_world 2 ether 1000 ''Test task'' PHOTO_VERIFICATION ether 5
            demo_location 2000 demo_requirements = Inr (0, w') \<and>
         taskBounties (bp w') 0 = 0 \<and> balances w' (bpAddr w') = 0 \<and>
         balances w' (tmAddr w') = ether \<and> balances w' 2 = 9 * ether)"
  by (simp add: tm_eval)

section \<open>C5: expireTask and the refund\<close>

text \<open>
  Claim C5. \<open>expireTask\<close> succeeds only after the deadline on a task that is neither
  Completed nor Expired and sets it to Expired (\<open>expireTask_True_iff\<close>,
  \<open>expireTask_frame\<close>); the claim adds that it triggers the 5% fee-adjusted refund from
  escrow. It does not: no balance and no pool entry changes (\<open>expireTask_frame\<close>). Task 0
  was created by account 2, the pool holds 1 ether for it; after the deadline
  \<open>expireTask\<close> returns true, the task is Expired, account 2 has what it had, the pool
  still holds the ether and has collected no fee.
\<close>

theorem expireTask_issues_no_refund:
  "(\<exists>w'. expireTask task_world 1 3000 0 = Inr (True, w') \<and>
      task_status (tasks (tm w') 0) = EXPIRED \<and>
      creator (tasks (tm w') 0) = 2 \<and>
      balances w' 2 = balances task_world 2 \<and>
      taskBounties (bp w') 0 = ether \<and> accumulatedFees (bp w') = 0) \<and>
   taskBounties (bp task_world) 0 = ether \<and> task_status (tasks (tm task_world) 0) = ACTIVE"
  by (simp add: task_world_def funded_world_def tm_eval)

section \<open>C9: a claim older than 24 hours\<close>

text \<open>
  Claim C9. A claim not completed within 24 hours can no longer be submitted against
  (\<open>expired_claim_cannot_submit\<close>), is released from the worker's active set and costs
  the worker reputation. Only the first part is in the code. Worker 3 claimed tasks 0, 1
  and 2 at time 1000. At time 87401 the submission for task 0 reverts with
  \<open>DeadlineExpired\<close>, the three task ids are still in the worker's active list, the
  claim of the unclaimed task 3 reverts with \<open>MaxActiveTasksReached\<close>, and the worker's
  reputation record is untouched.
\<close>

theorem expired_claim_keeps_its_slot:
  "workerActiveTasks (tm three_claims_world) 3 = [0, 1, 2] \<and>
   submitTaskCompletion three_claims_world 3 87401 0 ''QmTestHash123'' demo_location
     = Inl (DeadlineExpired 0 87400) \<and>
   claimTask three_claims_world 3 87401 3 = Inl (MaxActiveTasksReached 3) \<and>
   getReputationScore (rc three_claims_world) 3 = 50 \<and>
   tasksRejected (reputations (rc three_claims_world) 3) = 0"
  by (simp add: three_claims_world_def tm_eval getReputationScore_def INITIAL_REPUTATION_def)

section \<open>C6: the geofence check\<close>

lemmas int_consts = in_int256_def MIN_INT256_def MAX_INT256_def

lemma sq_bound: "\<bar>x\<bar> \<le> (2::int) ^ 101 \<Longrightarrow> x * x \<le> 2 ^ 202"
proof -
  assume "\<bar>x\<bar> \<le> 2 ^ 101"
  then have "\<bar>x\<bar> * \<bar>x\<bar> \<le> 2 ^ 101 * 2 ^ 101"
    by (intro mult_mono) auto
  then show ?thesis by simp
qed

lemma isWithinRadius_planar:
  assumes "\<bar>latitude required\<bar> \<le> 2 ^ 100" "\<bar>longitude required\<bar> \<le> 2 ^ 100"
    "\<bar>latitude provided\<bar> \<le> 2 ^ 100" "\<bar>longitude provided\<bar> \<le> 2 ^ 100"
    "radius required \<le> 2 ^ 100"
  shows "isWithinRadius required provided =
     Inr ((111000 * (latitude required - latitude provided))\<^sup>2
          + (111000 * (longitude required - longitude provided))\<^sup>2
          \<le> (10 ^ 6 * int (radius required))\<^sup>2)"
proof -
  define dlat where "dlat = latitude required - latitude provided"
  define dlon where "dlon = longitude required - longitude provided"
  define r where "r = radius required"
  have b1: "\<bar>dlat\<bar> \<le> 2 ^ 101" "\<bar>dlon\<bar> \<le> 2 ^ 101"
    using assms by (auto simp: dlat_def dlon_def)
  have s1: "dlat * dlat \<le> 2 ^ 202" "dlon * dlon \<le> 2 ^ 202"
    by (rule sq_bound[OF b1(1)], rule sq_bound[OF b1(2)])
  define a where "a = dlat * dlat"
  define b where "b = dlon * dlon"
  have n1: "0 \<le> a" "0 \<le> b" by (simp_all add: a_def b_def)
  have ab: "a \<le> 2 ^ 202" "b \<le> 2 ^ 202" using s1 by (simp_all add: a_def b_def)
  have rr: "r * r \<le> 2 ^ 200"
  proof -
    have "r * r \<le> 2 ^ 100 * 2 ^ 100" using assms(5) by (intro mult_mono) (auto simp: r_def)
    then show ?thesis by simp
  qed
  have rs: "r * r * 10 ^ 12 \<le> 2 ^ 200 * 10 ^ 12"
    using rr by (intro mult_right_mono) auto
  have i1: "in_int256 dlat" "in_int256 dlon"
    using b1 by (auto simp: int_consts)
  have "in_int256 a" "in_int256 b" "in_int256 (a + b)"
    using n1 ab by (simp_all add: int_consts)
  then have i2: "in_int256 (dlat * dlat)" "in_int256 (dlon * dlon)"
    "in_int256 (dlat * dlat + dlon * dlon)"
    by (simp_all add: a_def b_def)
  have u1: "r * r \<le> MAX_UINT256" "r * r * 10 ^ 12 \<le> MAX_UINT256"
    using rr rs by (auto simp: MAX_UINT256_def)
  have ev: "isWithinRadius required provided =
      Inr (nat (dlat * dlat + dlon * dlon) \<le> r * r * 10 ^ 12 div (111000 * 111000))"
    using i1 i2 u1
    by (simp add: isWithinRadius_def checked_isub_def checked_imul_def checked_iadd_def
          checked_mul_def Let_def dlat_def[symmetric] dlon_def[symmetric] r_def[symmetric])
  have "(nat (dlat * dlat + dlon * dlon) \<le> r * r * 10 ^ 12 div (111000 * 111000))
        \<longleftrightarrow> nat (dlat * dlat + dlon * dlon) * (111000 * 111000) \<le> r * r * 10 ^ 12"
    by (subst less_eq_div_iff_mult_less_eq) simp_all
  also have "\<dots> \<longleftrightarrow> int (nat (dlat * dlat + dlon * dlon) * (111000 * 111000)) \<le> int (r * r * 10 ^ 12)"
    by (simp only: of_nat_le_iff)
  also have "\<dots> \<longleftrightarrow> (111000 * dlat)\<^sup>2 + (111000 * dlon)\<^sup>2 \<le> (10 ^ 6 * int r)\<^sup>2"
    by (simp add: power2_eq_square algebra_simps)
  finally show ?thesis
    unfolding ev dlat_def dlon_def r_def by simp
qed


lemma call_checkAndRecordSubmission_not_location:
  "call_checkAndRecordSubmission w t c now s taskId h m \<noteq> Inl (OutsideLocationRadius a1 a2 a3 a4)"
  by (auto simp: call_checkAndRecordSubmission_def checkAndRecordSubmission_def
        checkRateLimit_def checkDuplicateImage_def validateMetadata_def Let_def bindE_def
        checked_add_def split: sum.splits if_splits)

text \<open>
  Claim C6, as amended. When the task requires location and the submission gets as far
  as the location check, \<open>submitTaskCompletion\<close> reverts with \<open>OutsideLocationRadius\<close>
  exactly when the planar test fails: in the contract's micro-degree coordinates,
  \<open>(111000 * dLat)\<^sup>2 + (111000 * dLon)\<^sup>2 > (10\<^sup>6 * radius)\<^sup>2\<close>, a flat
  approximation with 111 km to the degree on both axes. The haversine formula is not
  used.
\<close>

theorem submitTaskCompletion_planar_geofence:
  assumes "task_id (tasks (tm w) taskId) = taskId"
    and "claim_worker (taskClaims (tm w) taskId sender) \<noteq> 0"
    and "now \<le> deadline (tasks (tm w) taskId)"
    and "now \<le> claimedAt (taskClaims (tm w) taskId sender) + TASK_COMPLETION_TIMEOUT"
    and "claimedAt (taskClaims (tm w) taskId sender) + TASK_COMPLETION_TIMEOUT \<le> MAX_UINT256"
    and "requiresLocation (requirements (tasks (tm w) taskId))"
    and "\<bar>latitude (location (tasks (tm w) taskId))\<bar> \<le> 2 ^ 100"
    and "\<bar>longitude (location (tasks (tm w) taskId))\<bar> \<le> 2 ^ 100"
    and "\<bar>latitude loc\<bar> \<le> 2 ^ 100" and "\<bar>longitude loc\<bar> \<le> 2 ^ 100"
    and "radius (location (tasks (tm w) taskId)) \<le> 2 ^ 100"
  shows "submitTaskCompletion w sender now taskId h loc =
           Inl (OutsideLocationRadius (latitude (location (tasks (tm w) taskId)))
                  (longitude (location (tasks (tm w) taskId))) (latitude loc) (longitude loc))
         \<longleftrightarrow>
         (111000 * (latitude (location (tasks (tm w) taskId)) - latitude loc))\<^sup>2
           + (111000 * (longitude (location (tasks (tm w) taskId)) - longitude loc))\<^sup>2
           > (10 ^ 6 * int (radius (location (tasks (tm w) taskId))))\<^sup>2"
proof -
  let ?t = "tasks (tm w) taskId"
  let ?planar = "(111000 * (latitude (location ?t) - latitude loc))\<^sup>2
           + (111000 * (longitude (location ?t) - longitude loc))\<^sup>2
           \<le> (10 ^ 6 * int (radius (location ?t)))\<^sup>2"
  have iw: "isWithinRadius (location ?t) loc = Inr ?planar"
    using assms(7-11) by (rule isWithinRadius_planar)
  show ?thesis
  proof (cases ?planar)
    case False
    with assms(1-6) iw show ?thesis
      by (simp add: submitTaskCompletion_def Let_def checked_add_def)
  next
    case True
    with assms(1-6) iw show ?thesis
      by (auto simp: submitTaskCompletion_def Let_def checked_add_def
            call_checkAndRecordSubmission_not_location bindE_def split: sum.splits)
  qed
qed

lemmas geo_eval = test_world_def new_TaskManager_def zeroTask_def zeroLocation_def demo_location_def demo_requirements_def
  createTask_def claimTask_def attach_value_def ether_def Let_def checked_add_def
  MAX_UINT256_def tm_consts

lemma geo_world_facts:
  "tasks (tm geo_world) 0 = \<lparr>task_id = 0, creator = 2, description = ''Storefront photo'',
     category = PHOTO_VERIFICATION, bountyAmount = MINIMUM_BOUNTY, maxWorkers = 5,
     location = demo_location, deadline = 1000000, task_status = IN_PROGRESS,
     requirements = demo_requirements\<lparr>requiresLocation := True\<rparr>, submissionCount = 0,
     verifiedCount = 0, createdAt = 900\<rparr>"
  "taskClaims (tm geo_world) 0 3 = \<lparr>claim_worker = 3, claimedAt = 1000, completed = False\<rparr>"
  by (simp_all add: geo_world_def geo_eval)

theorem submitTaskCompletion_planar_geofence_witness:
  "submitTaskCompletion geo_world 3 2000 0 ''QmTestHash123''
     \<lparr>latitude = 40758817, longitude = - 73985428, radius = 0\<rparr>
   = Inl (OutsideLocationRadius 40748817 (- 73985428) 40758817 (- 73985428))"
  using submitTaskCompletion_planar_geofence
    [of geo_world 0 3 2000 "\<lparr>latitude = 40758817, longitude = - 73985428, radius = 0\<rparr>"
        "''QmTestHash123''"]
  by (simp add: geo_world_facts demo_location_def demo_requirements_def tm_consts
        MAX_UINT256_def)

text \<open>A lower bound for \<open>pi\<close>, from the Maclaurin expansion of the cosine at 1.5685.\<close>

lemma sum_upto_8:
  fixes f :: "nat \<Rightarrow> real"
  shows "(\<Sum>m<8. f m) = f 0 + f 1 + f 2 + f 3 + f 4 + f 5 + f 6 + f 7"
  by (simp add: eval_nat_numeral)

lemma cos_coeff_values:
  "cos_coeff (Suc 0) = 0" "cos_coeff 2 = - 1 / 2" "cos_coeff 3 = 0"
  "cos_coeff 4 = 1 / 24" "cos_coeff 5 = 0" "cos_coeff 6 = - 1 / 720" "cos_coeff 7 = 0"
  by (simp_all add: cos_coeff_def fact_numeral)

lemma cos_pos_at_15685: "0 < cos (15685 / 10000 :: real)"
proof -
  let ?c = "15685 / 10000 :: real"
  obtain t where t: "cos ?c = (\<Sum>m<8. cos_coeff m * ?c ^ m) + (cos (t + 1/2 * real 8 * pi) / fact 8) * ?c ^ 8"
    using Maclaurin_cos_expansion2[of ?c 8] by auto
  have s: "(\<Sum>m<8. cos_coeff m * ?c ^ m) = 1 - ?c^2 / 2 + ?c^4 / 24 - ?c^6 / 720"
    by (simp add: sum_upto_8 cos_coeff_values)
  have "- 1 \<le> cos (t + 1/2 * real 8 * pi)" by (rule cos_ge_minus_one)
  then have "- (?c ^ 8 / fact 8) \<le> (cos (t + 1/2 * real 8 * pi) / fact 8) * ?c ^ 8"
    by (simp add: divide_simps)
  with t s have "1 - ?c^2 / 2 + ?c^4 / 24 - ?c^6 / 720 - ?c ^ 8 / fact 8 \<le> cos ?c"
    by linarith
  moreover have "0 < 1 - ?c^2 / 2 + ?c^4 / 24 - ?c^6 / 720 - ?c ^ 8 / fact 8"
    by (simp add: fact_numeral power_divide)
  ultimately show ?thesis by linarith
qed

lemma pi_gt_3137: "3137 / 1000 < pi"
proof (rule ccontr)
  assume "\<not> 3137 / 1000 < pi"
  then have le: "pi / 2 \<le> 15685 / 10000" by simp
  have "cos (15685 / 10000 :: real) \<le> cos (pi / 2)"
    using le pi_ge_two by (intro cos_monotone_0_pi_le) auto
  with cos_pos_at_15685 show False by simp
qed


lemma haversine_antimeridian: "haversine_distance 0 180 0 (- 180) = 0"
proof -
  have "sin ((- 180 - 180) * pi / 180 / 2) = 0"
    by (simp add: field_simps)
  then show ?thesis
    by (simp add: haversine_distance_def Let_def)
qed

lemma haversine_one_degree: "haversine_distance 0 0 1 0 = EARTH_RADIUS * pi / 180"
proof -
  let ?x = "pi / 360"
  have x: "0 \<le> ?x" "?x \<le> pi / 2" by simp_all
  have "0 \<le> sin ?x" using x by (intro sin_ge_zero) auto
  then have "sqrt ((sin ?x)\<^sup>2) = sin ?x" by simp
  moreover have "arcsin (sin ?x) = ?x" using x by (intro arcsin_sin) auto
  ultimately show ?thesis
    by (simp add: haversine_distance_def Let_def)
qed

lemma one_degree_is_outside: "111000 < EARTH_RADIUS * pi / 180"
  using pi_gt_3137 by (simp add: EARTH_RADIUS_def field_simps)

text \<open>
  Claim C6 as stated: the geofence distance is the haversine great-circle distance. Two
  submissions show that it is not. On the antimeridian, a worker standing on the task's
  own spot (longitude -180 for a task at +180, great-circle distance 0) is rejected as
  outside a 100 m fence. On the equator, a worker one degree of latitude away from a task
  with a radius of 111000 m is 111195 m away on the great circle, outside the fence, and
  is accepted.
\<close>

theorem geofence_is_not_haversine:
  "location (tasks (tm meridian_world) 0) = \<lparr>latitude = 0, longitude = 180000000, radius = 100\<rparr> \<and>
   haversine_within \<lparr>latitude = 0, longitude = 180000000, radius = 100\<rparr>
     \<lparr>latitude = 0, longitude = - 180000000, radius = 0\<rparr> \<and>
   submitTaskCompletion meridian_world 3 2000 0 ''QmTestHash123''
     \<lparr>latitude = 0, longitude = - 180000000, radius = 0\<rparr>
     = Inl (OutsideLocationRadius 0 180000000 0 (- 180000000)) \<and>
   location (tasks (tm degree_world) 0) = \<lparr>latitude = 0, longitude = 0, radius = 111000\<rparr> \<and>
   \<not> haversine_within \<lparr>latitude = 0, longitude = 0, radius = 111000\<rparr>
     \<lparr>latitude = 1000000, longitude = 0, radius = 0\<rparr> \<and>
   returned (submitTaskCompletion degree_world 3 2000 0 ''QmTestHash123''
     \<lparr>latitude = 1000000, longitude = 0, radius = 0\<rparr>) = Inr 1"
proof -
  have h1: "haversine_within \<lparr>latitude = 0, longitude = 180000000, radius = 100\<rparr>
     \<lparr>latitude = 0, longitude = - 180000000, radius = 0\<rparr>"
    using haversine_antimeridian by (simp add: haversine_within_def)
  have h2: "\<not> haversine_within \<lparr>latitude = 0, longitude = 0, radius = 111000\<rparr>
     \<lparr>latitude = 1000000, longitude = 0, radius = 0\<rparr>"
    using haversine_one_degree one_degree_is_outside by (simp add: haversine_within_def)
  have c1: "location (tasks (tm meridian_world) 0) = \<lparr>latitude = 0, longitude = 180000000, radius = 100\<rparr>"
    "location (tasks (tm degree_world) 0) = \<lparr>latitude = 0, longitude = 0, radius = 111000\<rparr>"
    by (simp_all add: meridian_world_def degree_world_def geo_eval)
  have c2: "submitTaskCompletion meridian_world 3 2000 0 ''QmTestHash123''
     \<lparr>latitude = 0, longitude = - 180000000, radius = 0\<rparr>
     = Inl (OutsideLocationRadius 0 180000000 0 (- 180000000))"
    by (simp add: meridian_world_def geo_eval submitTaskCompletion_def isWithinRadius_def
          checked_isub_def checked_imul_def checked_iadd_def checked_mul_def int_consts)
  have c3: "returned (submitTaskCompletion degree_world 3 2000 0 ''QmTestHash123''
     \<lparr>latitude = 1000000, longitude = 0, radius = 0\<rparr>) = Inr 1"
    by (simp add: degree_world_def geo_eval submitTaskCompletion_def isWithinRadius_def
          checked_isub_def checked_imul_def checked_iadd_def checked_mul_def int_consts
          returned_def removeActiveTask_def)
  from h1 h2 c1 c2 c3 show ?thesis by simp
qed

section \<open>C2: votes after consensus\<close>

lemmas vc_consts = VERIFICATION_STAKE_def CONSENSUS_THRESHOLD_def MAX_VERIFIERS_def
  VERIFICATION_REWARD_PERCENTAGE_def REWARD_DISTRIBUTION_DELAY_def

lemmas vc_eval = test_world_def
  new_BountyPool_def new_VerificationContract_def new_ReputationContract_def new_AntiFraud_def
  zeroSubmission_def zeroVote_def zeroReputationData_def zeroLocation_def demo_location_def
  depositBounty_def createSubmission_def stakeForVerification_def submitVerification_def
  checkConsensus_def distributeVerificationRewards_def distributeVerifierRewards_def
  call_updateWorkerReputation_def call_updateVerifierReputation_def call_forfeitStake_def
  call_distributeReward_def distributeReward_def updateWorkerReputation_def
  updateVerifierReputation_def attach_value_def send_value_def ether_def Let_def
  checked_add_def checked_sub_def checked_mul_def MAX_UINT256_def vc_consts bp_consts
  rep_consts tm_consts

text \<open>
  Claim C2. Once either count reaches 3 the submission's status is terminal and no later
  operation changes it. \<open>stakeForVerification\<close> refuses a submission that is Verified or
  Rejected, but \<open>submitVerification\<close> has no such guard: a verifier who staked before
  consensus can still vote after it, and \<open>_checkConsensus\<close> tests the approvals first.
  Six verifiers stake on submission 0; three reject and the submission is Rejected, with
  the consensus time recorded; the other three then approve, and the status is Verified.
\<close>

theorem late_votes_overturn_rejection:
  "sub_status (submissions (vc rejected_world) 0) = REJECTED \<and>
   rejectionCount (submissions (vc rejected_world) 0) = 3 \<and>
   consensusReachedAt (vc rejected_world) 0 = 1202 \<and>
   sub_status (submissions (vc (run rejected_world late_approvals)) 0) = VERIFIED \<and>
   approvalCount (submissions (vc (run rejected_world late_approvals)) 0) = 3 \<and>
   rejectionCount (submissions (vc (run rejected_world late_approvals)) 0) = 3"
  by (simp add: rejected_world_def late_approvals_def submission_world_def vc_eval)


section \<open>VerificationContract: what a distribution leaves untouched\<close>

lemma send_value_vc: "send_value w a b v = (ok, w') \<Longrightarrow> vc w' = vc w \<and> vcAddr w' = vcAddr w"
  by (auto simp: send_value_def split: if_splits)

lemma call_updateVerifierReputation_vc:
  "call_updateVerifierReputation w t u b = Inr w' \<Longrightarrow> vc w' = vc w"
  by (auto simp: call_updateVerifierReputation_def bindE_eq_Inr split: if_splits)

lemma call_distributeReward_vc:
  "call_distributeReward w t taskId u amount = Inr w' \<Longrightarrow> vc w' = vc w"
  by (auto simp: call_distributeReward_def distributeReward_def Let_def bindE_eq_Inr
        send_value_def split: if_splits)

lemma distributeVerifierRewards_loop_vc:
  "distributeVerifierRewards_loop w sid b vs tot = Inr w' \<Longrightarrow> vc w' = vc w"
proof (induction vs arbitrary: w tot)
  case Nil
  then show ?case by simp
next
  case (Cons v vs)
  show ?case
  proof (cases "hasVoted (verificationVotes (vc w) sid v)")
    case False
    with Cons show ?thesis by (simp add: Let_def)
  next
    case voted: True
    show ?thesis
    proof (cases "approved (verificationVotes (vc w) sid v) = b")
      case True
      from Cons.prems voted True obtain reward tot' where
        body: "(case send_value w (vcAddr w) v reward of
                 (success, w1) \<Rightarrow>
                   if \<not> success then Inl (RequireFailed ''Verifier reward transfer failed'')
                   else bindE (if reputationContractAddress (vc w1) \<noteq> 0
                               then call_updateVerifierReputation w1
                                      (reputationContractAddress (vc w1)) v True
                               else Inr w1)
                          (\<lambda>w2. distributeVerifierRewards_loop w2 sid b vs tot')) = Inr w'"
        by (simp add: Let_def bindE_eq_Inr) blast
      obtain ok w1 where sv0: "send_value w (vcAddr w) v reward = (ok, w1)"
        by (cases "send_value w (vcAddr w) v reward")
      from body sv0 have ok: "ok" by (cases ok) simp_all
      from sv0 ok have sv: "send_value w (vcAddr w) v reward = (True, w1)" by simp
      from body sv obtain w2 where
        rep: "(if reputationContractAddress (vc w1) \<noteq> 0
                   then call_updateVerifierReputation w1 (reputationContractAddress (vc w1)) v True
                   else Inr w1) = Inr w2"
        and rest: "distributeVerifierRewards_loop w2 sid b vs tot' = Inr w'"
        by (simp add: bindE_eq_Inr) blast
      from sv have "vc w1 = vc w" by (auto dest: send_value_vc)
      moreover from rep have "vc w2 = vc w1"
        by (auto dest: call_updateVerifierReputation_vc split: if_splits)
      moreover from rest have "vc w' = vc w2" by (rule Cons.IH)
      ultimately show ?thesis by simp
    next
      case False
      from Cons.prems voted False obtain w2 where
        rep: "(if reputationContractAddress (vc w) \<noteq> 0
               then call_updateVerifierReputation w (reputationContractAddress (vc w)) v False
               else Inr w) = Inr w2"
        and rest: "distributeVerifierRewards_loop w2 sid b vs tot = Inr w'"
        by (simp add: Let_def bindE_eq_Inr) blast
      from rep have "vc w2 = vc w"
        by (auto dest: call_updateVerifierReputation_vc split: if_splits)
      moreover from rest have "vc w' = vc w2" by (rule Cons.IH)
      ultimately show ?thesis by simp
    qed
  qed
qed

lemma distributeVerificationRewards_success:
  assumes "distributeVerificationRewards w sender now sid = Inr w'"
  shows "sub_id (submissions (vc w) sid) = sid \<and>
     (sub_status (submissions (vc w) sid) = VERIFIED \<or>
      sub_status (submissions (vc w) sid) = REJECTED) \<and>
     \<not> rewardDistributed (submissions (vc w) sid) \<and>
     consensusReachedAt (vc w) sid + REWARD_DISTRIBUTION_DELAY \<le> now \<and>
     vc w' = (vc w)\<lparr>submissions := (submissions (vc w))(sid :=
                (submissions (vc w) sid)\<lparr>rewardDistributed := True\<rparr>)\<rparr>"
proof -
  let ?sub = "submissions (vc w) sid"
  let ?w1 = "w\<lparr>vc := (vc w)\<lparr>submissions := (submissions (vc w))(sid :=
                        ?sub\<lparr>rewardDistributed := True\<rparr>)\<rparr>\<rparr>"
  from assms have g: "sub_id ?sub = sid"
    "sub_status ?sub = VERIFIED \<or> sub_status ?sub = REJECTED" "\<not> rewardDistributed ?sub"
    by (auto simp: distributeVerificationRewards_def Let_def split: if_splits)
  from assms g have tm: "consensusReachedAt (vc w) sid \<le> now"
    "\<not> now - consensusReachedAt (vc w) sid < REWARD_DISTRIBUTION_DELAY"
    by (auto simp: distributeVerificationRewards_def Let_def bindE_eq_Inr checked_sub_eq_Inr
          split: if_splits)
  from assms g tm obtain w2 where
    pay: "(if sub_status ?sub = VERIFIED \<and> bountyPoolAddress (vc ?w1) \<noteq> 0
           then call_distributeReward ?w1 (bountyPoolAddress (vc ?w1)) (sub_taskId ?sub)
                  (sub_worker ?sub) (sub_bountyAmount ?sub)
           else Inr ?w1) = Inr w2"
    and loop: "distributeVerifierRewards w2 sid = Inr w'"
    by (auto simp: distributeVerificationRewards_def Let_def bindE_eq_Inr checked_sub_def
          split: if_splits)
  from pay have "vc w2 = vc ?w1"
    by (auto dest: call_distributeReward_vc split: if_splits)
  moreover from loop have "vc w' = vc w2"
    by (auto simp: distributeVerifierRewards_def dest: distributeVerifierRewards_loop_vc)
  ultimately have "vc w' = vc ?w1" by simp
  with g tm show ?thesis by simp
qed

section \<open>Vote bookkeeping: what holds of C2 in every reachable state\<close>

lemma votes_inv_bound:
  assumes "votes_inv w sid"
  shows "approvalCount (submissions (vc w) sid) + rejectionCount (submissions (vc w) sid) \<le> 7"
proof -
  let ?vs = "submissionVerifiers (vc w) sid"
  have "card {a \<in> set ?vs. hasVoted (verificationVotes (vc w) sid a)} \<le> card (set ?vs)"
    by (intro card_mono) auto
  also have "\<dots> \<le> length ?vs" by (rule card_length)
  finally show ?thesis using assms by (simp add: votes_inv_def MAX_VERIFIERS_def)
qed

lemma votes_inv_cong:
  assumes "submissions (vc w') sid = submissions (vc w) sid \<or>
           (approvalCount (submissions (vc w') sid) = approvalCount (submissions (vc w) sid) \<and>
            rejectionCount (submissions (vc w') sid) = rejectionCount (submissions (vc w) sid) \<and>
            totalVotes (submissions (vc w') sid) = totalVotes (submissions (vc w) sid))"
    and "verificationVotes (vc w') sid = verificationVotes (vc w) sid"
    and "submissionVerifiers (vc w') sid = submissionVerifiers (vc w) sid"
    and "votes_inv w sid"
  shows "votes_inv w' sid"
  using assms unfolding votes_inv_def by (elim disjE conjE) simp_all


lemma call_updateWorkerReputation_vc:
  "call_updateWorkerReputation w t u b = Inr w' \<Longrightarrow> vc w' = vc w"
  by (auto simp: call_updateWorkerReputation_def bindE_eq_Inr split: if_splits)

lemma call_forfeitStake_vc:
  "call_forfeitStake w t u r = Inr w' \<Longrightarrow> vc w' = vc w"
  by (auto simp: call_forfeitStake_def bindE_eq_Inr split: if_splits)

lemma checkConsensus_vc:
  assumes "checkConsensus w now sid' = Inr w'"
  shows "\<exists>st c. vc w' = (vc w)\<lparr>submissions := (submissions (vc w))(sid' :=
                    (submissions (vc w) sid')\<lparr>sub_status := st\<rparr>),
                  consensusReachedAt := c\<rparr> \<and>
           (approvalCount (submissions (vc w) sid') \<ge> CONSENSUS_THRESHOLD \<longrightarrow> st = VERIFIED) \<and>
           (approvalCount (submissions (vc w) sid') < CONSENSUS_THRESHOLD \<and>
            rejectionCount (submissions (vc w) sid') \<ge> CONSENSUS_THRESHOLD \<longrightarrow> st = REJECTED)"
proof -
  let ?s = "submissions (vc w) sid'"
  let ?upd = "\<lambda>st c. (vc w)\<lparr>submissions := (submissions (vc w))(sid' := ?s\<lparr>sub_status := st\<rparr>),
                  consensusReachedAt := c\<rparr>"
  consider (a) "approvalCount ?s \<ge> CONSENSUS_THRESHOLD"
    | (r) "\<not> approvalCount ?s \<ge> CONSENSUS_THRESHOLD" "rejectionCount ?s \<ge> CONSENSUS_THRESHOLD"
    | (d) "\<not> approvalCount ?s \<ge> CONSENSUS_THRESHOLD" "\<not> rejectionCount ?s \<ge> CONSENSUS_THRESHOLD"
          "totalVotes ?s \<ge> MAX_VERIFIERS"
    | (n) "\<not> approvalCount ?s \<ge> CONSENSUS_THRESHOLD" "\<not> rejectionCount ?s \<ge> CONSENSUS_THRESHOLD"
          "\<not> totalVotes ?s \<ge> MAX_VERIFIERS"
    by blast
  then show ?thesis
  proof cases
    case a
    let ?w1 = "w\<lparr>vc := ?upd VERIFIED ((consensusReachedAt (vc w))(sid' := now))\<rparr>"
    from assms a have "(if reputationContractAddress (vc ?w1) \<noteq> 0
           then call_updateWorkerReputation ?w1 (reputationContractAddress (vc ?w1))
                  (sub_worker ?s) True
           else Inr ?w1) = Inr w'"
      by (simp add: checkConsensus_def Let_def)
    then have "vc w' = vc ?w1"
      by (auto dest: call_updateWorkerReputation_vc split: if_splits)
    with a show ?thesis
      by (intro exI[of _ VERIFIED] exI[of _ "(consensusReachedAt (vc w))(sid' := now)"]) simp
  next
    case r
    let ?w1 = "w\<lparr>vc := ?upd REJECTED ((consensusReachedAt (vc w))(sid' := now))\<rparr>"
    from assms r obtain w2 where
      rep: "(if reputationContractAddress (vc ?w1) \<noteq> 0
             then call_updateWorkerReputation ?w1 (reputationContractAddress (vc ?w1))
                    (sub_worker ?s) False
             else Inr ?w1) = Inr w2"
      and ff: "(if vc_antiFraudAddress (vc w2) \<noteq> 0
                then call_forfeitStake w2 (vc_antiFraudAddress (vc w2)) (sub_worker ?s)
                       ''Submission rejected by consensus''
                else Inr w2) = Inr w'"
      by (simp add: checkConsensus_def Let_def bindE_eq_Inr) blast
    from rep have "vc w2 = vc ?w1"
      by (auto dest: call_updateWorkerReputation_vc split: if_splits)
    moreover from ff have "vc w' = vc w2"
      by (auto dest: call_forfeitStake_vc split: if_splits)
    ultimately have "vc w' = vc ?w1" by simp
    with r show ?thesis
      by (intro exI[of _ REJECTED] exI[of _ "(consensusReachedAt (vc w))(sid' := now)"]) simp
  next
    case d
    with assms have "vc w' = ?upd DISPUTED (consensusReachedAt (vc w))"
      by (auto simp: checkConsensus_def Let_def)
    with d show ?thesis
      by (intro exI[of _ DISPUTED] exI[of _ "consensusReachedAt (vc w)"]) simp
  next
    case n
    with assms have "w' = w" by (simp add: checkConsensus_def Let_def)
    then have "vc w' = ?upd (sub_status ?s) (consensusReachedAt (vc w))" by simp
    with n show ?thesis
      by (intro exI[of _ "sub_status ?s"] exI[of _ "consensusReachedAt (vc w)"]) simp
  qed
qed


lemma stakeForVerification_success:
  assumes "stakeForVerification w s v sid' = Inr w'"
  shows "vc w' = (vc w)\<lparr>
           verificationVotes := (verificationVotes (vc w))(sid' :=
              (verificationVotes (vc w) sid')(s :=
                 (verificationVotes (vc w) sid' s)\<lparr>stake := v\<rparr>)),
           submissionVerifiers := (submissionVerifiers (vc w))(sid' :=
              submissionVerifiers (vc w) sid' @ [s])\<rparr> \<and>
         length (submissionVerifiers (vc w) sid') < MAX_VERIFIERS"
proof -
  from assms obtain w1 where a: "attach_value w s (vcAddr w) v = Inr w1"
    by (auto simp: stakeForVerification_def bindE_eq_Inr)
  then have v1: "vc w1 = vc w" by (auto simp: attach_value_def split: if_splits)
  from assms a have "(if sub_id (submissions (vc w1) sid') \<noteq> sid' then Inl (SubmissionNotFound sid')
       else if sub_status (submissions (vc w1) sid') \<noteq> PENDING \<and>
               sub_status (submissions (vc w1) sid') \<noteq> DISPUTED
       then Inl (AlreadyVerified sid')
       else if hasVoted (verificationVotes (vc w1) sid' s) then Inl (AlreadyVoted s sid')
       else if length (submissionVerifiers (vc w1) sid') \<ge> MAX_VERIFIERS
       then Inl (MaxVerifiersReached sid')
       else if s = sub_worker (submissions (vc w1) sid') then Inl (WorkerCannotVerifyOwnSubmission s)
       else if v < VERIFICATION_STAKE then Inl (InsufficientStake v VERIFICATION_STAKE)
       else Inr (w1\<lparr>vc := (vc w1)\<lparr>
                   verificationVotes := (verificationVotes (vc w1))(sid' :=
                      (verificationVotes (vc w1) sid')(s :=
                         (verificationVotes (vc w1) sid' s)\<lparr>stake := v\<rparr>)),
                   submissionVerifiers := (submissionVerifiers (vc w1))(sid' :=
                      submissionVerifiers (vc w1) sid' @ [s])\<rparr>\<rparr>)) = Inr w'"
    by (simp add: stakeForVerification_def Let_def)
  then show ?thesis
    unfolding v1 by (simp split: if_splits) auto
qed

lemma stakeForVerification_inv:
  assumes "stakeForVerification w s v sid' = Inr w'" and "votes_inv w sid"
  shows "votes_inv w' sid"
proof (cases "sid' = sid")
  case False
  from stakeForVerification_success[OF assms(1)] False assms(2) show ?thesis
    by (intro votes_inv_cong[of w' sid w]) simp_all
next
  case True
  let ?vs = "submissionVerifiers (vc w) sid"
  let ?P = "\<lambda>a. hasVoted (verificationVotes (vc w) sid a)"
  note sh = stakeForVerification_success[OF assms(1)]
  from sh True have
    sub: "submissions (vc w') sid = submissions (vc w) sid"
    and vs: "submissionVerifiers (vc w') sid = ?vs @ [s]"
    and hv: "\<And>a. hasVoted (verificationVotes (vc w') sid a) = ?P a"
    and st: "\<And>a. a \<noteq> s \<Longrightarrow> stake (verificationVotes (vc w') sid a)
                 = stake (verificationVotes (vc w) sid a)"
    and len: "length ?vs < MAX_VERIFIERS"
    by simp_all
  have c: "card {a \<in> set ?vs. ?P a} \<le> card {a \<in> set (?vs @ [s]). ?P a}"
    by (intro card_mono) auto
  have j3: "\<forall>a. stake (verificationVotes (vc w') sid a) \<noteq> 0 \<longrightarrow> a \<in> set (?vs @ [s])"
  proof (intro allI impI)
    fix a assume "stake (verificationVotes (vc w') sid a) \<noteq> 0"
    then show "a \<in> set (?vs @ [s])"
      using st[of a] assms(2) by (cases "a = s") (auto simp: votes_inv_def)
  qed
  from assms(2) c j3 len show ?thesis
    unfolding votes_inv_def sub vs hv by simp
qed


lemma submitVerification_success:
  assumes "submitVerification w s now sid' appr fb = Inr w'"
  shows "stake (verificationVotes (vc w) sid' s) \<noteq> 0 \<and>
         \<not> hasVoted (verificationVotes (vc w) sid' s) \<and>
         (\<exists>sub' cra. vc w' = (vc w)\<lparr>
            verificationVotes := (verificationVotes (vc w))(sid' :=
               (verificationVotes (vc w) sid')(s :=
                  (verificationVotes (vc w) sid' s)\<lparr>hasVoted := True, approved := appr,
                     vote_timestamp := now\<rparr>)),
            submissions := (submissions (vc w))(sid' := sub'),
            consensusReachedAt := cra\<rparr> \<and>
            totalVotes sub' = totalVotes (submissions (vc w) sid') + 1 \<and>
            approvalCount sub' + rejectionCount sub'
              = approvalCount (submissions (vc w) sid') + rejectionCount (submissions (vc w) sid') + 1 \<and>
            (approvalCount sub' \<ge> CONSENSUS_THRESHOLD \<longrightarrow> sub_status sub' = VERIFIED) \<and>
            (approvalCount sub' < CONSENSUS_THRESHOLD \<and> rejectionCount sub' \<ge> CONSENSUS_THRESHOLD
               \<longrightarrow> sub_status sub' = REJECTED))"
proof -
  let ?sub = "submissions (vc w) sid'"
  let ?vote = "verificationVotes (vc w) sid' s"
  from assms have g: "sub_id ?sub = sid'" "stake ?vote \<noteq> 0" "\<not> hasVoted ?vote"
    by (auto simp: submitVerification_def Let_def split: if_splits)
  from assms g obtain tv c where
    tv: "checked_add (totalVotes ?sub) 1 = Inr tv"
    and c: "(if appr then checked_add (approvalCount ?sub) 1
             else checked_add (rejectionCount ?sub) 1) = Inr c"
    and cc: "checkConsensus
               (w\<lparr>vc := (vc w)\<lparr>
                   verificationVotes := (verificationVotes (vc w))(sid' :=
                      (verificationVotes (vc w) sid')(s :=
                         ?vote\<lparr>hasVoted := True, approved := appr, vote_timestamp := now\<rparr>)),
                   submissions := (submissions (vc w))(sid' :=
                      (if appr then ?sub\<lparr>totalVotes := tv, approvalCount := c\<rparr>
                       else ?sub\<lparr>totalVotes := tv, rejectionCount := c\<rparr>))\<rparr>\<rparr>)
               now sid' = Inr w'"
    by (simp add: submitVerification_def Let_def bindE_eq_Inr) blast
  from checkConsensus_vc[OF cc] obtain st cra where
    v: "vc w' = (vc w)\<lparr>
            verificationVotes := (verificationVotes (vc w))(sid' :=
               (verificationVotes (vc w) sid')(s :=
                  ?vote\<lparr>hasVoted := True, approved := appr, vote_timestamp := now\<rparr>)),
            submissions := (submissions (vc w))(sid' :=
               (if appr then ?sub\<lparr>totalVotes := tv, approvalCount := c\<rparr>
                else ?sub\<lparr>totalVotes := tv, rejectionCount := c\<rparr>)\<lparr>sub_status := st\<rparr>),
            consensusReachedAt := cra\<rparr>"
    and st: "approvalCount (if appr then ?sub\<lparr>totalVotes := tv, approvalCount := c\<rparr>
                else ?sub\<lparr>totalVotes := tv, rejectionCount := c\<rparr>) \<ge> CONSENSUS_THRESHOLD
             \<longrightarrow> st = VERIFIED"
      "approvalCount (if appr then ?sub\<lparr>totalVotes := tv, approvalCount := c\<rparr>
                else ?sub\<lparr>totalVotes := tv, rejectionCount := c\<rparr>) < CONSENSUS_THRESHOLD \<and>
       rejectionCount (if appr then ?sub\<lparr>totalVotes := tv, approvalCount := c\<rparr>
                else ?sub\<lparr>totalVotes := tv, rejectionCount := c\<rparr>) \<ge> CONSENSUS_THRESHOLD
             \<longrightarrow> st = REJECTED"
    by auto
  let ?sub' = "(if appr then ?sub\<lparr>totalVotes := tv, approvalCount := c\<rparr>
                else ?sub\<lparr>totalVotes := tv, rejectionCount := c\<rparr>)\<lparr>sub_status := st\<rparr>"
  from tv c have n: "totalVotes ?sub' = totalVotes ?sub + 1"
    "approvalCount ?sub' + rejectionCount ?sub' = approvalCount ?sub + rejectionCount ?sub + 1"
    by (auto simp: checked_add_eq_Inr split: if_splits)
  from st have n2: "approvalCount ?sub' \<ge> CONSENSUS_THRESHOLD \<longrightarrow> sub_status ?sub' = VERIFIED"
    "approvalCount ?sub' < CONSENSUS_THRESHOLD \<and> rejectionCount ?sub' \<ge> CONSENSUS_THRESHOLD
       \<longrightarrow> sub_status ?sub' = REJECTED"
    by (cases appr; simp)+
  from v g n n2 show ?thesis by blast
qed

lemma submitVerification_inv:
  assumes "submitVerification w s now sid' appr fb = Inr w'" and "votes_inv w sid"
  shows "votes_inv w' sid"
proof (cases "sid' = sid")
  case False
  from submitVerification_success[OF assms(1)] obtain sub' cra where
    "vc w' = (vc w)\<lparr>
            verificationVotes := (verificationVotes (vc w))(sid' :=
               (verificationVotes (vc w) sid')(s :=
                  (verificationVotes (vc w) sid' s)\<lparr>hasVoted := True, approved := appr,
                     vote_timestamp := now\<rparr>)),
            submissions := (submissions (vc w))(sid' := sub'),
            consensusReachedAt := cra\<rparr>"
    by blast
  with False assms(2) show ?thesis
    by (intro votes_inv_cong[of w' sid w]) simp_all
next
  case True
  let ?vs = "submissionVerifiers (vc w) sid"
  let ?P = "\<lambda>a. hasVoted (verificationVotes (vc w) sid a)"
  from submitVerification_success[OF assms(1)] True obtain sub' cra where
    st: "stake (verificationVotes (vc w) sid s) \<noteq> 0" and nv: "\<not> ?P s"
    and v: "vc w' = (vc w)\<lparr>
            verificationVotes := (verificationVotes (vc w))(sid :=
               (verificationVotes (vc w) sid)(s :=
                  (verificationVotes (vc w) sid s)\<lparr>hasVoted := True, approved := appr,
                     vote_timestamp := now\<rparr>)),
            submissions := (submissions (vc w))(sid := sub'),
            consensusReachedAt := cra\<rparr>"
    and tv: "totalVotes sub' = totalVotes (submissions (vc w) sid) + 1"
    and ar: "approvalCount sub' + rejectionCount sub'
              = approvalCount (submissions (vc w) sid) + rejectionCount (submissions (vc w) sid) + 1"
    by blast
  from v have sub: "submissions (vc w') sid = sub'"
    and vs: "submissionVerifiers (vc w') sid = ?vs"
    and hv: "\<And>a. hasVoted (verificationVotes (vc w') sid a) = (a = s \<or> ?P a)"
    and sk: "\<And>a. stake (verificationVotes (vc w') sid a) = stake (verificationVotes (vc w) sid a)"
    by (simp_all add: v)
  from assms(2) st have sin: "s \<in> set ?vs" by (simp add: votes_inv_def)
  have "{a \<in> set ?vs. a = s \<or> ?P a} = insert s {a \<in> set ?vs. ?P a}"
    using sin by auto
  moreover have "s \<notin> {a \<in> set ?vs. ?P a}" using nv by simp
  ultimately have card: "card {a \<in> set ?vs. a = s \<or> ?P a} = Suc (card {a \<in> set ?vs. ?P a})"
    by simp
  from assms(2) tv ar card show ?thesis
    unfolding votes_inv_def sub vs hv sk by simp
qed


lemma votes_inv_same_vc: "same_submissions w w' \<Longrightarrow> votes_inv w sid \<Longrightarrow> votes_inv w' sid"
  by (simp add: votes_inv_def same_submissions_def)

lemma createSubmission_inv:
  assumes "createSubmission w s now t u h l b = Inr (i, w')" and "votes_inv w sid"
  shows "votes_inv w' sid"
proof -
  from assms(1) have v: "vc w' = (vc w)\<lparr>submissionIdCounter := submissionIdCounter (vc w) + 1,
      submissions := (submissions (vc w))(submissionIdCounter (vc w) :=
        \<lparr>sub_id = submissionIdCounter (vc w), sub_taskId = t, sub_worker = u, ipfsHash = h,
         sub_timestamp = now, sub_location = l, sub_status = PENDING, approvalCount = 0,
         rejectionCount = 0, totalVotes = 0, sub_bountyAmount = b, rewardDistributed = False\<rparr>)\<rparr>"
    by (auto simp: createSubmission_def Let_def bindE_eq_Inr checked_add_eq_Inr split: if_splits)
  show ?thesis
  proof (cases "sid = submissionIdCounter (vc w)")
    case True
    with assms(2) show ?thesis unfolding votes_inv_def v by simp
  next
    case False
    with assms(2) show ?thesis unfolding votes_inv_def v by simp
  qed
qed

lemma distributeVerificationRewards_inv:
  assumes "distributeVerificationRewards w s now sid' = Inr w'" and "votes_inv w sid"
  shows "votes_inv w' sid"
proof -
  from distributeVerificationRewards_success[OF assms(1)]
  have v: "vc w' = (vc w)\<lparr>submissions := (submissions (vc w))(sid' :=
                (submissions (vc w) sid')\<lparr>rewardDistributed := True\<rparr>)\<rparr>" by simp
  from assms(2) show ?thesis
    by (intro votes_inv_cong[of w' sid w]) (simp_all add: v)
qed

lemma attach_value_vc: "attach_value w s t v = Inr w' \<Longrightarrow> vc w' = vc w"
  by (auto simp: attach_value_def split: if_splits)

lemma claimTask_vc: "claimTask w s now t = Inr (b, w') \<Longrightarrow> vc w' = vc w"
  by (auto simp: claimTask_def Let_def split: if_splits)

lemma call_checkAndRecordSubmission_vc:
  "call_checkAndRecordSubmission w t c now s taskId h m = Inr w' \<Longrightarrow> vc w' = vc w"
  by (auto simp: call_checkAndRecordSubmission_def bindE_eq_Inr split: if_splits)

lemma submitTaskCompletion_vc:
  "submitTaskCompletion w s now t h l = Inr (n, w') \<Longrightarrow> vc w' = vc w"
  by (auto simp: submitTaskCompletion_def Let_def bindE_eq_Inr
        dest!: call_checkAndRecordSubmission_vc split: if_splits)

lemma depositBounty_vc: "depositBounty w s v t = Inr w' \<Longrightarrow> vc w' = vc w"
  by (auto simp: depositBounty_def bindE_eq_Inr dest!: attach_value_vc split: if_splits)

lemma distributeReward_vc: "distributeReward w s t u a = Inr w' \<Longrightarrow> vc w' = vc w"
  by (auto simp: distributeReward_def Let_def bindE_eq_Inr send_value_def split: if_splits)

lemma refundBounty_vc: "refundBounty w s t u a = Inr w' \<Longrightarrow> vc w' = vc w"
  by (auto simp: refundBounty_def Let_def bindE_eq_Inr send_value_def split: if_splits)

lemma dropResult_eq_Inr: "dropResult r = Inr w' \<longleftrightarrow> (\<exists>x. r = Inr (x, w'))"
  by (auto simp: dropResult_def split: sum.splits)

lemma same_submissions_vc: "vc w' = vc w \<Longrightarrow> same_submissions w w'"
  by (simp add: same_submissions_def)

lemma withdrawPlatformFees_vc: "withdrawPlatformFees w s = Inr w' \<Longrightarrow> vc w' = vc w"
  by (auto simp: withdrawPlatformFees_def Let_def send_value_def split: if_splits)

lemma receive_ether_vc: "receive_ether w s v t = Inr w' \<Longrightarrow> vc w' = vc w"
  by (auto simp: receive_ether_def dest: attach_value_vc split: if_splits)

lemma vc_setters_same:
  "vc_setBountyPool (vc w) s x = Inr v \<Longrightarrow> same_submissions w (w\<lparr>vc := v\<rparr>)"
  "vc_setReputationContract (vc w) s x = Inr v \<Longrightarrow> same_submissions w (w\<lparr>vc := v\<rparr>)"
  "vc_setTaskManager (vc w) s x = Inr v \<Longrightarrow> same_submissions w (w\<lparr>vc := v\<rparr>)"
  "vc_setAntiFraud (vc w) s x = Inr v \<Longrightarrow> same_submissions w (w\<lparr>vc := v\<rparr>)"
  by (auto simp: vc_setBountyPool_def vc_setReputationContract_def vc_setTaskManager_def
        vc_setAntiFraud_def same_submissions_def split: if_splits)

lemma transact_vc_cases:
  assumes "transact w (s, now, c) = Inr w'"
  shows "same_submissions w w' \<or>
     (\<exists>t u h l b i. createSubmission w s now t u h l b = Inr (i, w')) \<or>
     (\<exists>v sid'. stakeForVerification w s v sid' = Inr w') \<or>
     (\<exists>sid' appr fb. submitVerification w s now sid' appr fb = Inr w') \<or>
     (\<exists>sid'. distributeVerificationRewards w s now sid' = Inr w')"
proof (cases c)
  case (CreateTask v d cat b mw l dl rq)
  with assms have "vc w' = vc w" by (auto simp: dropResult_eq_Inr dest: createTask_frame)
  then show ?thesis by (simp add: same_submissions_vc)
next
  case (ClaimTask taskId)
  with assms have "vc w' = vc w" by (auto simp: dropResult_eq_Inr dest: claimTask_vc)
  then show ?thesis by (simp add: same_submissions_vc)
next
  case (SubmitTaskCompletion taskId h l)
  with assms have "vc w' = vc w" by (auto simp: dropResult_eq_Inr dest: submitTaskCompletion_vc)
  then show ?thesis by (simp add: same_submissions_vc)
next
  case (ExpireTask taskId)
  with assms have "vc w' = vc w" by (auto simp: dropResult_eq_Inr dest: expireTask_frame)
  then show ?thesis by (simp add: same_submissions_vc)
next
  case (DepositBounty v taskId)
  with assms have "vc w' = vc w" by (auto dest: depositBounty_vc)
  then show ?thesis by (simp add: same_submissions_vc)
next
  case (DistributeReward taskId u a)
  with assms have "vc w' = vc w" by (auto dest: distributeReward_vc)
  then show ?thesis by (simp add: same_submissions_vc)
next
  case (RefundBounty taskId u a)
  with assms have "vc w' = vc w" by (auto dest: refundBounty_vc)
  then show ?thesis by (simp add: same_submissions_vc)
next
  case (CreateSubmission taskId u h l b)
  with assms show ?thesis by (auto simp: dropResult_eq_Inr)
next
  case (StakeForVerification v sid')
  with assms show ?thesis by auto
next
  case (SubmitVerification sid' appr fb)
  with assms show ?thesis by auto
next
  case (DistributeVerificationRewards sid')
  with assms show ?thesis by auto
next
  case (Reputation op)
  with assms have "vc w' = vc w" by (auto simp: bindE_eq_Inr)
  then show ?thesis by (simp add: same_submissions_vc)
next
  case (AntiFraudCall op)
  with assms have "vc w' = vc w" by (auto simp: bindE_eq_Inr)
  then show ?thesis by (simp add: same_submissions_vc)
next
  case (RC_SetVerificationContract x)
  with assms have "vc w' = vc w" by (auto simp: bindE_eq_Inr)
  then show ?thesis by (simp add: same_submissions_vc)
next
  case (RC_SetTaskManager x)
  with assms have "vc w' = vc w" by (auto simp: bindE_eq_Inr)
  then show ?thesis by (simp add: same_submissions_vc)
next
  case (TM_SetAntiFraud x)
  with assms have "vc w' = vc w" by (auto simp: bindE_eq_Inr)
  then show ?thesis by (simp add: same_submissions_vc)
next
  case (BP_SetTaskManager x)
  with assms have "vc w' = vc w" by (auto simp: bindE_eq_Inr)
  then show ?thesis by (simp add: same_submissions_vc)
next
  case (BP_SetVerificationContract x)
  with assms have "vc w' = vc w" by (auto simp: bindE_eq_Inr)
  then show ?thesis by (simp add: same_submissions_vc)
next
  case WithdrawPlatformFees
  with assms have "vc w' = vc w" by (auto dest: withdrawPlatformFees_vc)
  then show ?thesis by (simp add: same_submissions_vc)
next
  case (VC_SetBountyPool x)
  with assms show ?thesis by (auto simp: bindE_eq_Inr dest: vc_setters_same)
next
  case (VC_SetReputationContract x)
  with assms show ?thesis by (auto simp: bindE_eq_Inr dest: vc_setters_same)
next
  case (VC_SetTaskManager x)
  with assms show ?thesis by (auto simp: bindE_eq_Inr dest: vc_setters_same)
next
  case (VC_SetAntiFraud x)
  with assms show ?thesis by (auto simp: bindE_eq_Inr dest: vc_setters_same)
next
  case (Receive v target)
  with assms have "vc w' = vc w" by (auto dest: receive_ether_vc)
  then show ?thesis by (simp add: same_submissions_vc)
qed

lemma transact_inv:
  assumes "votes_inv w sid"
  shows "votes_inv (commit w (transact w t)) sid"
proof (cases "transact w t")
  case (Inl e)
  with assms show ?thesis by simp
next
  case (Inr w')
  obtain s now c where t: "t = (s, now, c)" by (cases t)
  from transact_vc_cases[OF Inr[unfolded t]] assms have "votes_inv w' sid"
    by (auto dest: votes_inv_same_vc createSubmission_inv stakeForVerification_inv
          submitVerification_inv distributeVerificationRewards_inv)
  with Inr show ?thesis by simp
qed

lemma run_votes_inv: "votes_inv w sid \<Longrightarrow> votes_inv (run w ts) sid"
  by (induction ts arbitrary: w) (auto simp: transact_inv)

lemma new_VerificationContract_votes_inv:
  "vc w = new_VerificationContract d \<Longrightarrow> votes_inv w sid"
  by (simp add: votes_inv_def new_VerificationContract_def zeroSubmission_def zeroVote_def)

text \<open>In every state reachable from a fresh deployment by any transactions, the votes
  counted on a submission are at most seven.\<close>

lemma vote_counts_at_most_seven:
  assumes "vc w = new_VerificationContract d"
  shows "approvalCount (submissions (vc (run w ts)) sid)
         + rejectionCount (submissions (vc (run w ts)) sid) \<le> 7"
  by (intro votes_inv_bound run_votes_inv new_VerificationContract_votes_inv[OF assms])


lemma consensus_inv_cong:
  "submissions (vc w') sid = submissions (vc w) sid \<or>
     (approvalCount (submissions (vc w') sid) = approvalCount (submissions (vc w) sid) \<and>
      rejectionCount (submissions (vc w') sid) = rejectionCount (submissions (vc w) sid) \<and>
      sub_status (submissions (vc w') sid) = sub_status (submissions (vc w) sid))
   \<Longrightarrow> consensus_inv w sid \<Longrightarrow> consensus_inv w' sid"
  unfolding consensus_inv_def by (elim disjE conjE) simp_all

lemma stakeForVerification_consensus_inv:
  assumes "stakeForVerification w s v sid' = Inr w'" and "consensus_inv w sid"
  shows "consensus_inv w' sid"
  using stakeForVerification_success[OF assms(1)] assms(2)
  by (intro consensus_inv_cong[of w' sid w]) simp_all

lemma submitVerification_consensus_inv:
  assumes "submitVerification w s now sid' appr fb = Inr w'" and "consensus_inv w sid"
  shows "consensus_inv w' sid"
proof -
  from submitVerification_success[OF assms(1)] obtain sub' cra where
    v: "vc w' = (vc w)\<lparr>
            verificationVotes := (verificationVotes (vc w))(sid' :=
               (verificationVotes (vc w) sid')(s :=
                  (verificationVotes (vc w) sid' s)\<lparr>hasVoted := True, approved := appr,
                     vote_timestamp := now\<rparr>)),
            submissions := (submissions (vc w))(sid' := sub'),
            consensusReachedAt := cra\<rparr>"
    and st: "approvalCount sub' \<ge> CONSENSUS_THRESHOLD \<longrightarrow> sub_status sub' = VERIFIED"
      "approvalCount sub' < CONSENSUS_THRESHOLD \<and> rejectionCount sub' \<ge> CONSENSUS_THRESHOLD
               \<longrightarrow> sub_status sub' = REJECTED"
    by blast
  show ?thesis
  proof (cases "sid' = sid")
    case True
    with st show ?thesis unfolding consensus_inv_def v by simp
  next
    case False
    with assms(2) show ?thesis
      by (intro consensus_inv_cong[of w' sid w]) (simp_all add: v)
  qed
qed

lemma createSubmission_consensus_inv:
  assumes "createSubmission w s now t u h l b = Inr (i, w')" and "consensus_inv w sid"
  shows "consensus_inv w' sid"
proof -
  from assms(1) have v: "vc w' = (vc w)\<lparr>submissionIdCounter := submissionIdCounter (vc w) + 1,
      submissions := (submissions (vc w))(submissionIdCounter (vc w) :=
        \<lparr>sub_id = submissionIdCounter (vc w), sub_taskId = t, sub_worker = u, ipfsHash = h,
         sub_timestamp = now, sub_location = l, sub_status = PENDING, approvalCount = 0,
         rejectionCount = 0, totalVotes = 0, sub_bountyAmount = b, rewardDistributed = False\<rparr>)\<rparr>"
    by (auto simp: createSubmission_def Let_def bindE_eq_Inr checked_add_eq_Inr split: if_splits)
  from assms(2) show ?thesis
    unfolding consensus_inv_def v by (simp add: CONSENSUS_THRESHOLD_def)
qed

lemma distributeVerificationRewards_consensus_inv:
  assumes "distributeVerificationRewards w s now sid' = Inr w'" and "consensus_inv w sid"
  shows "consensus_inv w' sid"
proof -
  from distributeVerificationRewards_success[OF assms(1)]
  have v: "vc w' = (vc w)\<lparr>submissions := (submissions (vc w))(sid' :=
                (submissions (vc w) sid')\<lparr>rewardDistributed := True\<rparr>)\<rparr>" by simp
  from assms(2) show ?thesis
    by (intro consensus_inv_cong[of w' sid w]) (simp_all add: v)
qed

lemma consensus_inv_same_vc:
  "same_submissions w w' \<Longrightarrow> consensus_inv w sid \<Longrightarrow> consensus_inv w' sid"
  by (simp add: consensus_inv_def same_submissions_def)

lemma transact_consensus_inv:
  assumes "consensus_inv w sid"
  shows "consensus_inv (commit w (transact w t)) sid"
proof (cases "transact w t")
  case (Inl e)
  with assms show ?thesis by simp
next
  case (Inr w')
  obtain s now c where t: "t = (s, now, c)" by (cases t)
  from transact_vc_cases[OF Inr[unfolded t]] assms have "consensus_inv w' sid"
    by (auto dest: consensus_inv_same_vc createSubmission_consensus_inv
          stakeForVerification_consensus_inv submitVerification_consensus_inv
          distributeVerificationRewards_consensus_inv)
  with Inr show ?thesis by simp
qed

lemma run_consensus_inv: "consensus_inv w sid \<Longrightarrow> consensus_inv (run w ts) sid"
  by (induction ts arbitrary: w) (auto simp: transact_consensus_inv)

text \<open>In every state reachable from a fresh deployment, a submission with three
  approvals is Verified, and one with three rejections and fewer approvals is Rejected.\<close>

lemma three_votes_decide:
  assumes "vc w = new_VerificationContract d"
  shows "consensus_inv (run w ts) sid"
proof -
  from assms have "consensus_inv w sid"
    by (simp add: consensus_inv_def new_VerificationContract_def zeroSubmission_def
          CONSENSUS_THRESHOLD_def)
  then show ?thesis by (rule run_consensus_inv)
qed


section \<open>C3: rewards are distributed once\<close>








lemma checkConsensus_submissions:
  assumes "checkConsensus w now sid' = Inr w'"
  shows "submissionIdCounter (vc w') = submissionIdCounter (vc w) \<and>
         submissions (vc w') = (submissions (vc w))(sid' := (submissions (vc w) sid')\<lparr>sub_status :=
            (if approvalCount (submissions (vc w) sid') \<ge> CONSENSUS_THRESHOLD then VERIFIED
             else if rejectionCount (submissions (vc w) sid') \<ge> CONSENSUS_THRESHOLD then REJECTED
             else if totalVotes (submissions (vc w) sid') \<ge> MAX_VERIFIERS then DISPUTED
             else sub_status (submissions (vc w) sid'))\<rparr>)"
proof -
  let ?s = "submissions (vc w) sid'"
  let ?upd = "\<lambda>st c. (vc w)\<lparr>submissions := (submissions (vc w))(sid' := ?s\<lparr>sub_status := st\<rparr>),
                  consensusReachedAt := c\<rparr>"
  consider (a) "approvalCount ?s \<ge> CONSENSUS_THRESHOLD"
    | (r) "\<not> approvalCount ?s \<ge> CONSENSUS_THRESHOLD" "rejectionCount ?s \<ge> CONSENSUS_THRESHOLD"
    | (d) "\<not> approvalCount ?s \<ge> CONSENSUS_THRESHOLD" "\<not> rejectionCount ?s \<ge> CONSENSUS_THRESHOLD"
          "totalVotes ?s \<ge> MAX_VERIFIERS"
    | (n) "\<not> approvalCount ?s \<ge> CONSENSUS_THRESHOLD" "\<not> rejectionCount ?s \<ge> CONSENSUS_THRESHOLD"
          "\<not> totalVotes ?s \<ge> MAX_VERIFIERS"
    by blast
  then show ?thesis
  proof cases
    case a
    let ?w1 = "w\<lparr>vc := ?upd VERIFIED ((consensusReachedAt (vc w))(sid' := now))\<rparr>"
    from assms a have "(if reputationContractAddress (vc ?w1) \<noteq> 0
           then call_updateWorkerReputation ?w1 (reputationContractAddress (vc ?w1))
                  (sub_worker ?s) True
           else Inr ?w1) = Inr w'"
      by (simp add: checkConsensus_def Let_def)
    then have "vc w' = vc ?w1"
      by (auto dest: call_updateWorkerReputation_vc split: if_splits)
    with a show ?thesis by simp
  next
    case r
    let ?w1 = "w\<lparr>vc := ?upd REJECTED ((consensusReachedAt (vc w))(sid' := now))\<rparr>"
    from assms r obtain w2 where
      rep: "(if reputationContractAddress (vc ?w1) \<noteq> 0
             then call_updateWorkerReputation ?w1 (reputationContractAddress (vc ?w1))
                    (sub_worker ?s) False
             else Inr ?w1) = Inr w2"
      and ff: "(if vc_antiFraudAddress (vc w2) \<noteq> 0
                then call_forfeitStake w2 (vc_antiFraudAddress (vc w2)) (sub_worker ?s)
                       ''Submission rejected by consensus''
                else Inr w2) = Inr w'"
      by (simp add: checkConsensus_def Let_def bindE_eq_Inr) blast
    from rep have "vc w2 = vc ?w1"
      by (auto dest: call_updateWorkerReputation_vc split: if_splits)
    moreover from ff have "vc w' = vc w2"
      by (auto dest: call_forfeitStake_vc split: if_splits)
    ultimately have "vc w' = vc ?w1" by simp
    with r show ?thesis by simp
  next
    case d
    with assms have "vc w' = ?upd DISPUTED (consensusReachedAt (vc w))"
      by (auto simp: checkConsensus_def Let_def)
    with d show ?thesis by simp
  next
    case n
    with assms have "w' = w" by (simp add: checkConsensus_def Let_def)
    with n show ?thesis by simp
  qed
qed

lemma submitVerification_submissions:
  assumes "submitVerification w s now sid' appr fb = Inr w'"
  shows "submissionIdCounter (vc w') = submissionIdCounter (vc w) \<and>
         (\<forall>x. x \<noteq> sid' \<longrightarrow> submissions (vc w') x = submissions (vc w) x) \<and>
         sub_id (submissions (vc w') sid') = sub_id (submissions (vc w) sid') \<and>
         rewardDistributed (submissions (vc w') sid') = rewardDistributed (submissions (vc w) sid') \<and>
         approvalCount (submissions (vc w') sid')
           = approvalCount (submissions (vc w) sid') + (if appr then 1 else 0) \<and>
         rejectionCount (submissions (vc w') sid')
           = rejectionCount (submissions (vc w) sid') + (if appr then 0 else 1) \<and>
         sub_status (submissions (vc w') sid') =
            (if approvalCount (submissions (vc w') sid') \<ge> CONSENSUS_THRESHOLD then VERIFIED
             else if rejectionCount (submissions (vc w') sid') \<ge> CONSENSUS_THRESHOLD then REJECTED
             else if totalVotes (submissions (vc w) sid') + 1 \<ge> MAX_VERIFIERS then DISPUTED
             else sub_status (submissions (vc w) sid'))"
proof -
  let ?sub = "submissions (vc w) sid'"
  let ?vote = "verificationVotes (vc w) sid' s"
  from assms have g: "sub_id ?sub = sid'" "stake ?vote \<noteq> 0" "\<not> hasVoted ?vote"
    by (auto simp: submitVerification_def Let_def split: if_splits)
  from assms g obtain tv c where
    tv: "checked_add (totalVotes ?sub) 1 = Inr tv"
    and c: "(if appr then checked_add (approvalCount ?sub) 1
             else checked_add (rejectionCount ?sub) 1) = Inr c"
    and cc: "checkConsensus
               (w\<lparr>vc := (vc w)\<lparr>
                   verificationVotes := (verificationVotes (vc w))(sid' :=
                      (verificationVotes (vc w) sid')(s :=
                         ?vote\<lparr>hasVoted := True, approved := appr, vote_timestamp := now\<rparr>)),
                   submissions := (submissions (vc w))(sid' :=
                      (if appr then ?sub\<lparr>totalVotes := tv, approvalCount := c\<rparr>
                       else ?sub\<lparr>totalVotes := tv, rejectionCount := c\<rparr>))\<rparr>\<rparr>)
               now sid' = Inr w'"
    by (simp add: submitVerification_def Let_def bindE_eq_Inr) blast
  from tv c have n: "tv = totalVotes ?sub + 1"
    "appr \<Longrightarrow> c = approvalCount ?sub + 1" "\<not> appr \<Longrightarrow> c = rejectionCount ?sub + 1"
    by (auto simp: checked_add_eq_Inr split: if_splits)
  from checkConsensus_submissions[OF cc] n show ?thesis
    by (cases appr) simp_all
qed









lemma transact_decided_by_votes:
  assumes "decided_by_votes w sid"
  shows "decided_by_votes (commit w (transact w t)) sid"
proof (cases "transact w t")
  case (Inl e)
  with assms show ?thesis by simp
next
  case (Inr w')
  obtain s now c where t: "t = (s, now, c)" by (cases t)
  from transact_vc_cases[OF Inr[unfolded t]]
  consider (same) "same_submissions w w'"
    | (create) x u h l b i where "createSubmission w s now x u h l b = Inr (i, w')"
    | (stake) v sid' where "stakeForVerification w s v sid' = Inr w'"
    | (vote) sid' appr fb where "submitVerification w s now sid' appr fb = Inr w'"
    | (pay) sid' where "distributeVerificationRewards w s now sid' = Inr w'"
    by blast
  then have "decided_by_votes w' sid"
  proof cases
    case same
    with assms show ?thesis by (simp add: decided_by_votes_def same_submissions_def)
  next
    case create
    then have v: "vc w' = (vc w)\<lparr>submissionIdCounter := submissionIdCounter (vc w) + 1,
      submissions := (submissions (vc w))(submissionIdCounter (vc w) :=
        \<lparr>sub_id = submissionIdCounter (vc w), sub_taskId = x, sub_worker = u, ipfsHash = h,
         sub_timestamp = now, sub_location = l, sub_status = PENDING, approvalCount = 0,
         rejectionCount = 0, totalVotes = 0, sub_bountyAmount = b, rewardDistributed = False\<rparr>)\<rparr>"
      by (auto simp: createSubmission_def Let_def bindE_eq_Inr checked_add_eq_Inr split: if_splits)
    from assms show ?thesis unfolding decided_by_votes_def v by simp
  next
    case stake
    from stakeForVerification_success[OF this] assms show ?thesis
      by (simp add: decided_by_votes_def)
  next
    case vote
    note sh = submitVerification_submissions[OF vote]
    show ?thesis
    proof (cases "sid' = sid")
      case False
      with sh assms show ?thesis by (simp add: decided_by_votes_def)
    next
      case True
      from sh[unfolded True] assms show ?thesis
        unfolding decided_by_votes_def by (auto split: if_splits)
    qed
  next
    case pay
    from distributeVerificationRewards_success[OF pay]
    have v: "vc w' = (vc w)\<lparr>submissions := (submissions (vc w))(sid' :=
                (submissions (vc w) sid')\<lparr>rewardDistributed := True\<rparr>)\<rparr>" by simp
    from assms show ?thesis unfolding decided_by_votes_def v by (cases "sid' = sid") simp_all
  qed
  with Inr show ?thesis by simp
qed

lemma run_decided_by_votes: "decided_by_votes w sid \<Longrightarrow> decided_by_votes (run w ts) sid"
  by (induction ts arbitrary: w) (auto simp: transact_decided_by_votes)

text \<open>From a state in which the submission is Pending, whatever is sent, a status of
  Verified or Rejected comes with three votes of one kind: the condition on the counts in
  the theorem below holds of every decided submission that a run produces.\<close>

lemma reachable_decided_by_votes:
  assumes "sub_status (submissions (vc w) sid) = PENDING"
  shows "decided_by_votes (run w ts) sid"
  by (rule run_decided_by_votes) (simp add: decided_by_votes_def assms)






text \<open>Two more payouts, run on the contract. After the six votes of claim C2 (5, 6 and 7
  reject, then 8, 9 and 10 approve) the submission is Verified: the worker and the three
  approvers are paid, the stakes of the three rejecters stay in the contract, and the
  reputations move by 5 either way.\<close>

lemma mixed_votes_payout:
  "\<exists>w'. distributeVerificationRewards (run rejected_world late_approvals) 1 1700 0 = Inr w' \<and>
     balances w' 3 = 10 * ether + 4875 * 10 ^ 14 \<and>
     balances w' 5 = 10 * ether - 10 ^ 17 \<and>
     balances w' 8 = 10 * ether + 10 ^ 16 \<and>
     balances w' 103 = ether + 6 * 10 ^ 17 - 33 * 10 ^ 16 \<and>
     score (reputations (rc w') 5) = 45 \<and>
     score (reputations (rc w') 8) = 55"
  by (simp add: rejected_world_def late_approvals_def submission_world_def vc_eval)

text \<open>An address that staked twice before voting has two entries in the verifier list
  and is paid for each of them.\<close>

lemma double_stake_paid_per_entry:
  "submissionVerifiers (vc double_stake_world) 0 = [5, 5, 6, 7] \<and>
   rewardedVerifiers (vc double_stake_world) 0 = [5, 5, 6, 7] \<and>
   balances double_stake_world 5 = 10 * ether - 2 * 10 ^ 17 \<and>
   (\<exists>w'. distributeVerificationRewards double_stake_world 1 1500 0 = Inr w' \<and>
         balances w' 5 = 10 * ether + 2 * 10 ^ 16 \<and>
         balances w' 6 = 10 * ether + 10 ^ 16)"
  by (simp add: double_stake_world_def submission_world_def rewardedVerifiers_def
        votedVerifiers_def consensusApproved_def vc_eval)


end
